theory Spec2Isabelle
  imports Complex_Main "HOL-Library.AList"
begin

section \<open>Food detection and portion estimation (\<open>app/services/food_detection.py\<close>)\<close>

text \<open>
  The service analyses one decoded photograph: an object detector returns labelled
  boxes, every label is mapped onto a food key, and for every kept food a weight in
  grams is estimated from the area of its box, optionally blended with a second
  estimate read from a depth map.

  Conventions of the embedding.
  \<^item> Python's \<open>float\<close> values are embedded as exact rationals (\<open>rat\<close>): a literal
    such as \<open>0.15\<close> stands for the fraction \<open>15/100\<close>, the arithmetic is exact, and
    \<open>round(x, n)\<close> rounds the exact value to \<open>n\<close> decimals, ties to the even digit.
    Binary representation error, infinities and NaN are outside the embedding.
  \<^item> An exception is a value \<open>Inl e\<close> of the sum type \<open>exn + 'a\<close>.
  \<^item> The two neural networks, the image decoder and the array library are
    collaborators of the service: what they hand back is a parameter of the model.
  \<^item> A character is a code point below 256.
\<close>

subsection \<open>Python primitives\<close>

datatype exn = ValueError | KeyError | ZeroDivisionError | UnidentifiedImageError | RuntimeError

text \<open>\<open>str.lower()\<close>, character by character: the capital letters \<open>A\<close> to \<open>Z\<close> and the
  capital letters of Latin-1 (\<open>0xC0\<close> to \<open>0xDE\<close> without the multiplication sign
  \<open>0xD7\<close>) move up by 32; every other code point below 256 stays.\<close>

definition lower_char :: "char \<Rightarrow> char" where
  "lower_char c =
     (let n = (of_char c :: nat)
      in if (65 \<le> n \<and> n \<le> 90) \<or> (192 \<le> n \<and> n \<le> 222 \<and> n \<noteq> 215)
         then char_of (n + 32) else c)"

definition lower :: "string \<Rightarrow> string" where
  "lower s = map lower_char s"

text \<open>\<open>int(x)\<close> on a float truncates towards zero.\<close>

definition py_int :: "rat \<Rightarrow> int" where
  "py_int v = (if 0 \<le> v then \<lfloor>v\<rfloor> else \<lceil>v\<rceil>)"

text \<open>Rounding to the nearest integer, a tie going to the even neighbour.\<close>

definition round_half_even :: "rat \<Rightarrow> int" where
  "round_half_even v =
     (let f = \<lfloor>v\<rfloor>; d = v - of_int f
      in if d < 1 / 2 then f
         else if 1 / 2 < d then f + 1
         else if even f then f else f + 1)"

text \<open>\<open>round(x, ndigits)\<close> for \<open>ndigits \<ge> 0\<close>.\<close>

definition py_round :: "rat \<Rightarrow> nat \<Rightarrow> rat" where
  "py_round v ndigits = of_int (round_half_even (v * 10 ^ ndigits)) / 10 ^ ndigits"

subsection \<open>Data\<close>

text \<open>The decoded image as the service reads it: \<open>image.shape[0]\<close> (rows, equal to
  \<open>image.height\<close>), \<open>image.shape[1]\<close> (columns, equal to \<open>image.width\<close>) and
  the pixel buffer, of which the service itself never reads a value.\<close>

record image =
  shape0 :: nat
  shape1 :: nat
  pixels :: "nat list"

type_synonym bbox = "rat \<times> rat \<times> rat \<times> rat"

record class_info =
  calories_per_100g :: int
  default_weight :: int

definition FOOD_CLASSES :: "(string \<times> class_info) list" where
  "FOOD_CLASSES =
    [(''apple'',     \<lparr>calories_per_100g = 52,  default_weight = 182\<rparr>),
     (''banana'',    \<lparr>calories_per_100g = 89,  default_weight = 118\<rparr>),
     (''orange'',    \<lparr>calories_per_100g = 47,  default_weight = 131\<rparr>),
     (''pizza'',     \<lparr>calories_per_100g = 266, default_weight = 107\<rparr>),
     (''hamburger'', \<lparr>calories_per_100g = 295, default_weight = 226\<rparr>),
     (''sandwich'',  \<lparr>calories_per_100g = 250, default_weight = 150\<rparr>),
     (''salad'',     \<lparr>calories_per_100g = 20,  default_weight = 200\<rparr>),
     (''rice'',      \<lparr>calories_per_100g = 130, default_weight = 158\<rparr>),
     (''pasta'',     \<lparr>calories_per_100g = 131, default_weight = 140\<rparr>),
     (''chicken'',   \<lparr>calories_per_100g = 239, default_weight = 140\<rparr>),
     (''steak'',     \<lparr>calories_per_100g = 271, default_weight = 221\<rparr>),
     (''fish'',      \<lparr>calories_per_100g = 206, default_weight = 154\<rparr>),
     (''egg'',       \<lparr>calories_per_100g = 155, default_weight = 50\<rparr>),
     (''bread'',     \<lparr>calories_per_100g = 265, default_weight = 30\<rparr>),
     (''cake'',      \<lparr>calories_per_100g = 257, default_weight = 80\<rparr>),
     (''cookie'',    \<lparr>calories_per_100g = 502, default_weight = 30\<rparr>),
     (''soup'',      \<lparr>calories_per_100g = 40,  default_weight = 240\<rparr>),
     (''coffee'',    \<lparr>calories_per_100g = 2,   default_weight = 240\<rparr>),
     (''juice'',     \<lparr>calories_per_100g = 45,  default_weight = 240\<rparr>),
     (''milk'',      \<lparr>calories_per_100g = 42,  default_weight = 244\<rparr>)]"

text \<open>One box of the detector: class id, confidence and corner coordinates
  (\<open>box.cls[0]\<close>, \<open>box.conf[0]\<close>, \<open>box.xyxy[0]\<close>).\<close>

record box =
  cls :: int
  conf :: rat
  xyxy :: bbox

text \<open>One result of the detector: its boxes (\<open>None\<close> when it has none) and the
  dictionary from class ids to class names.\<close>

record detection_result =
  boxes :: "box list option"
  names :: "int \<Rightarrow> string option"

text \<open>The detector, called with the image and the confidence threshold.\<close>

type_synonym food_model = "image \<Rightarrow> rat \<Rightarrow> detection_result list"

text \<open>The depth network with the array operations around it (inference, resampling to
  the image size, the mean over the cropped box and the maximum over the map): given
  the image and the box in whole pixels it either raises or yields
  \<open>normalized_depth = avg_depth / max(depth_map)\<close>.\<close>

type_synonym depth_model = "image \<Rightarrow> int \<times> int \<times> int \<times> int \<Rightarrow> exn + rat"

text \<open>\<open>model_loader.get_model(name)\<close> for the two names the service asks for.\<close>

record model_loader =
  food_recognition :: "food_model option"
  depth_estimation :: "depth_model option"

record food_detection_service =
  loader :: model_loader
  confidence_threshold :: rat

record bounding_box =
  bb_x :: int
  bb_y :: int
  bb_width :: int
  bb_height :: int

record food_info =
  fi_name :: string
  fi_confidence :: rat
  fi_bounding_box :: bounding_box

text \<open>The returned dictionary. \<open>portion_estimates\<close> is a Python dictionary: an
  association list in insertion order, assigned to with \<^const>\<open>AList.update\<close>.\<close>

record analysis =
  detected_foods :: "food_info list"
  portion_estimates :: "(string \<times> rat) list"
  image_dimensions :: "nat \<times> nat"

subsection \<open>\<open>_map_to_food_class\<close>\<close>

definition mappings :: "(string \<times> string option) list" where
  "mappings =
    [(''hot dog'', Some ''hotdog''),
     (''french fries'', Some ''fries''),
     (''doughnut'', Some ''donut''),
     (''cup'', Some ''coffee''),
     (''bowl'', Some ''soup''),
     (''plate'', None)]"

definition map_to_food_class :: "string \<Rightarrow> string option" where
  "map_to_food_class detected_class =
     (let detected_lower = lower detected_class
      in if map_of FOOD_CLASSES detected_lower \<noteq> None then Some detected_lower
         else (case map_of mappings detected_lower of
                 Some v \<Rightarrow> v
               | None \<Rightarrow> Some detected_lower))"

subsection \<open>\<open>_depth_based_estimation\<close>\<close>

text \<open>\<open>[int(v) for v in bbox]\<close>: the box in whole pixels.\<close>

definition bbox_px :: "bbox \<Rightarrow> int \<times> int \<times> int \<times> int" where
  "bbox_px bbox = (case bbox of (x1, y1, x2, y2) \<Rightarrow> (py_int x1, py_int y1, py_int x2, py_int y2))"

text \<open>\<open>estimated_grams\<close>, from the box in whole pixels and the normalised depth.\<close>

definition depth_grams :: "int \<times> int \<times> int \<times> int \<Rightarrow> rat \<Rightarrow> rat" where
  "depth_grams px normalized_depth =
     (case px of (x1, y1, x2, y2) \<Rightarrow>
        let area = (x2 - x1) * (y2 - y1);
            volume_factor = of_int area * normalized_depth;
            estimated_grams = volume_factor * 0.001
        in estimated_grams)"

definition depth_based_estimation :: "image \<Rightarrow> bbox \<Rightarrow> depth_model \<Rightarrow> exn + rat option" where
  "depth_based_estimation img bbox depth_model =
     (let px = bbox_px bbox
      in (case depth_model img px of
            Inl e \<Rightarrow> Inl e
          | Inr normalized_depth \<Rightarrow>
              let estimated_grams = depth_grams px normalized_depth
              in Inr (if estimated_grams > 10 then Some estimated_grams else None)))"

subsection \<open>\<open>_estimate_portion\<close>\<close>

text \<open>The local variables of the area stage, one definition each.\<close>

definition image_area :: "image \<Rightarrow> nat" where
  "image_area img = shape0 img * shape1 img"

definition food_area :: "bbox \<Rightarrow> rat" where
  "food_area bbox = (case bbox of (x1, y1, x2, y2) \<Rightarrow> (x2 - x1) * (y2 - y1))"

definition area_ratio :: "image \<Rightarrow> bbox \<Rightarrow> rat" where
  "area_ratio img bbox = food_area bbox / of_nat (image_area img)"

definition default_weight_for :: "string \<Rightarrow> rat" where
  "default_weight_for food_name =
     (case map_of FOOD_CLASSES food_name of
        Some info \<Rightarrow> of_int (default_weight info)
      | None \<Rightarrow> 100)"

definition typical_ratio :: rat where
  "typical_ratio = 0.15"

definition scale_factor :: "image \<Rightarrow> bbox \<Rightarrow> rat" where
  "scale_factor img bbox = max 0.5 (min 2.0 (area_ratio img bbox / typical_ratio))"

text \<open>\<open>estimated_weight\<close> as it stands before the depth stage.\<close>

definition area_weight :: "image \<Rightarrow> string \<Rightarrow> bbox \<Rightarrow> rat" where
  "area_weight img food_name bbox = default_weight_for food_name * scale_factor img bbox"

text \<open>The depth stage: \<open>estimated_weight\<close> after it. An exception of the depth
  estimation is caught and logged; \<open>if depth_estimate:\<close> is Python truthiness, false
  for \<open>None\<close> and for zero.\<close>

definition depth_stage :: "model_loader \<Rightarrow> image \<Rightarrow> bbox \<Rightarrow> rat \<Rightarrow> rat" where
  "depth_stage ml img bbox estimated_weight =
     (case depth_estimation ml of
        None \<Rightarrow> estimated_weight
      | Some depth_model \<Rightarrow>
          (case depth_based_estimation img bbox depth_model of
             Inl e \<Rightarrow> estimated_weight
           | Inr None \<Rightarrow> estimated_weight
           | Inr (Some depth_estimate) \<Rightarrow>
               if depth_estimate \<noteq> 0 then (estimated_weight + depth_estimate) / 2
               else estimated_weight))"

text \<open>The division by \<open>image_area\<close> raises on an image without pixels, before anything
  else is computed.\<close>

definition estimate_portion :: "model_loader \<Rightarrow> image \<Rightarrow> string \<Rightarrow> bbox \<Rightarrow> exn + rat" where
  "estimate_portion ml img food_name bbox =
     (if image_area img = 0 then Inl ZeroDivisionError
      else Inr (py_round (depth_stage ml img bbox (area_weight img food_name bbox)) 1))"

subsection \<open>\<open>analyze_image\<close>\<close>

type_synonym collected = "food_info list \<times> (string \<times> rat) list"

text \<open>The body of the inner loop, for one box; \<open>foods\<close> and \<open>estimates\<close> are the
  local variables \<open>detected_foods\<close> and \<open>portion_estimates\<close>.\<close>

definition process_box ::
  "model_loader \<Rightarrow> image \<Rightarrow> bool \<Rightarrow> (int \<Rightarrow> string option) \<Rightarrow> box \<Rightarrow> collected \<Rightarrow> exn + collected" where
  "process_box ml img include_portion_estimate nms b st =
     (case st of (foods, estimates) \<Rightarrow>
      (case nms (cls b) of
         None \<Rightarrow> Inl KeyError
       | Some class_name \<Rightarrow>
          (case xyxy b of (x1, y1, x2, y2) \<Rightarrow>
           (case map_to_food_class class_name of
              None \<Rightarrow> Inr st
            | Some food_name \<Rightarrow>
                if food_name = [] then Inr st
                else
                  let info = \<lparr>fi_name = food_name,
                              fi_confidence = py_round (conf b) 3,
                              fi_bounding_box =
                                \<lparr>bb_x = py_int x1, bb_y = py_int y1,
                                 bb_width = py_int (x2 - x1), bb_height = py_int (y2 - y1)\<rparr>\<rparr>;
                      foods' = foods @ [info]
                  in if include_portion_estimate
                     then (case estimate_portion ml img food_name (x1, y1, x2, y2) of
                             Inl e \<Rightarrow> Inl e
                           | Inr portion \<Rightarrow>
                               Inr (foods', AList.update food_name portion estimates))
                     else Inr (foods', estimates)))))"

text \<open>\<open>for box in boxes\<close>: the first exception ends the loop.\<close>

fun process_boxes ::
  "model_loader \<Rightarrow> image \<Rightarrow> bool \<Rightarrow> (int \<Rightarrow> string option) \<Rightarrow> box list \<Rightarrow> collected \<Rightarrow> exn + collected" where
  "process_boxes ml img inc nms [] st = Inr st"
| "process_boxes ml img inc nms (b # bs) st =
     (case process_box ml img inc nms b st of
        Inl e \<Rightarrow> Inl e
      | Inr st' \<Rightarrow> process_boxes ml img inc nms bs st')"

text \<open>\<open>for result in results\<close>: a result without boxes is skipped.\<close>

fun process_results ::
  "model_loader \<Rightarrow> image \<Rightarrow> bool \<Rightarrow> detection_result list \<Rightarrow> collected \<Rightarrow> exn + collected" where
  "process_results ml img inc [] st = Inr st"
| "process_results ml img inc (r # rs) st =
     (case boxes r of
        None \<Rightarrow> process_results ml img inc rs st
      | Some bs \<Rightarrow>
          if length bs = 0 then process_results ml img inc rs st
          else (case process_boxes ml img inc (names r) bs st of
                  Inl e \<Rightarrow> Inl e
                | Inr st' \<Rightarrow> process_results ml img inc rs st'))"

text \<open>\<open>opened\<close> is what decoding \<open>image_data\<close> gives: the image or the decoder's
  exception. Every exception is logged and raised again.\<close>

definition analyze_image :: "food_detection_service \<Rightarrow> exn + image \<Rightarrow> bool \<Rightarrow> exn + analysis" where
  "analyze_image self opened include_portion_estimate =
     (case opened of
        Inl e \<Rightarrow> Inl e
      | Inr img \<Rightarrow>
          (case food_recognition (loader self) of
             None \<Rightarrow> Inl ValueError
           | Some food_model \<Rightarrow>
               (case process_results (loader self) img include_portion_estimate
                       (food_model img (confidence_threshold self)) ([], []) of
                  Inl e \<Rightarrow> Inl e
                | Inr (foods, estimates) \<Rightarrow>
                    Inr \<lparr>detected_foods = foods,
                         portion_estimates = estimates,
                         image_dimensions = (shape1 img, shape0 img)\<rparr>)))"

subsection \<open>Notions used in the statements\<close>

text \<open>The invariant of the two loops: every key of the portion estimates collected so
  far names a food collected so far.\<close>

definition keys_detected :: "collected \<Rightarrow> bool" where
  "keys_detected st \<longleftrightarrow> fst ` set (snd st) \<subseteq> fi_name ` set (fst st)"

text \<open>The detections in the order in which the two loops reach them: every box of every
  result, paired with \<open>result.names\<close> of its result.\<close>

definition detections :: "detection_result list \<Rightarrow> ((int \<Rightarrow> string option) \<times> box) list" where
  "detections rs =
     concat (map (\<lambda>r. case boxes r of None \<Rightarrow> [] | Some bs \<Rightarrow> map (Pair (names r)) bs) rs)"

text \<open>The food key under which the loop body keeps a detection: \<open>food_name\<close> where
  \<open>if food_name:\<close> holds, nothing for a detection that is dropped.\<close>

definition kept_key :: "(int \<Rightarrow> string option) \<times> box \<Rightarrow> string option" where
  "kept_key d =
     (case fst d (cls (snd d)) of
        None \<Rightarrow> None
      | Some l \<Rightarrow>
          (case map_to_food_class l of
             None \<Rightarrow> None
           | Some k \<Rightarrow> if k = [] then None else Some k))"

text \<open>The two loops as one, over the detections in order.\<close>

fun process_detections ::
  "model_loader \<Rightarrow> image \<Rightarrow> bool \<Rightarrow> ((int \<Rightarrow> string option) \<times> box) list \<Rightarrow> collected \<Rightarrow> exn + collected" where
  "process_detections ml img inc [] st = Inr st"
| "process_detections ml img inc (d # ds) st =
     (case process_box ml img inc (fst d) (snd d) st of
        Inl e \<Rightarrow> Inl e
      | Inr st' \<Rightarrow> process_detections ml img inc ds st')"

section \<open>Properties\<close>

subsection \<open>Rounding\<close>

lemma round_half_even_of_int: "round_half_even (of_int n) = n"
  by (simp add: round_half_even_def)

lemma round_half_even_ge_floor: "\<lfloor>v\<rfloor> \<le> round_half_even v"
  by (simp add: round_half_even_def Let_def)

lemma round_half_even_le_ceiling: "round_half_even v \<le> \<lceil>v\<rceil>"
proof (cases "v = of_int \<lfloor>v\<rfloor>")
  case True
  then have "round_half_even v = \<lfloor>v\<rfloor>"
    by (simp add: round_half_even_def Let_def)
  then show ?thesis by (simp add: floor_le_ceiling)
next
  case False
  then have "\<lceil>v\<rceil> = \<lfloor>v\<rfloor> + 1"
    by (metis ceiling_altdef)
  moreover have "round_half_even v \<le> \<lfloor>v\<rfloor> + 1"
    by (simp add: round_half_even_def Let_def)
  ultimately show ?thesis by simp
qed

lemma round_half_even_lower: "of_int n \<le> v \<Longrightarrow> n \<le> round_half_even v"
proof -
  assume "of_int n \<le> v"
  then have "n \<le> \<lfloor>v\<rfloor>" by (simp add: le_floor_iff)
  also have "\<dots> \<le> round_half_even v" by (rule round_half_even_ge_floor)
  finally show ?thesis .
qed

lemma round_half_even_upper: "v \<le> of_int n \<Longrightarrow> round_half_even v \<le> n"
proof -
  assume "v \<le> of_int n"
  then have "\<lceil>v\<rceil> \<le> n" by (simp add: ceiling_le_iff)
  with round_half_even_le_ceiling [of v] show ?thesis by linarith
qed

lemma round_half_even_error: "\<bar>of_int (round_half_even v) - v\<bar> \<le> 1 / 2"
proof -
  define f where "f = \<lfloor>v\<rfloor>"
  have b: "of_int f \<le> v" "v < of_int f + 1" unfolding f_def by linarith+
  have "round_half_even v = f \<and> v - of_int f \<le> 1 / 2
      \<or> round_half_even v = f + 1 \<and> 1 / 2 \<le> v - of_int f"
    unfolding round_half_even_def Let_def f_def [symmetric] by auto
  then show ?thesis
    using b by (auto simp: abs_if) 
qed

lemma py_round_lower:
  assumes "of_int n / 10 ^ d \<le> v"
  shows "of_int n / 10 ^ d \<le> py_round v d"
proof -
  have "of_int n \<le> v * 10 ^ d"
    using assms by (simp add: pos_divide_le_eq)
  then have "n \<le> round_half_even (v * 10 ^ d)"
    by (rule round_half_even_lower)
  then have "(of_int n :: rat) \<le> of_int (round_half_even (v * 10 ^ d))"
    by simp
  then show ?thesis
    unfolding py_round_def by (simp add: divide_right_mono)
qed

lemma py_round_upper:
  assumes "v \<le> of_int n / 10 ^ d"
  shows "py_round v d \<le> of_int n / 10 ^ d"
proof -
  have "v * 10 ^ d \<le> of_int n"
    using assms by (simp add: pos_le_divide_eq)
  then have "round_half_even (v * 10 ^ d) \<le> n"
    by (rule round_half_even_upper)
  then have "(of_int (round_half_even (v * 10 ^ d)) :: rat) \<le> of_int n"
    by simp
  then show ?thesis
    unfolding py_round_def by (simp add: divide_right_mono)
qed

lemma py_round_error: "\<bar>py_round v d - v\<bar> \<le> 1 / (2 * 10 ^ d)"
proof -
  have "\<bar>of_int (round_half_even (v * 10 ^ d)) - v * 10 ^ d\<bar> \<le> 1 / 2"
    by (rule round_half_even_error)
  then have "\<bar>of_int (round_half_even (v * 10 ^ d)) - v * 10 ^ d\<bar> / 10 ^ d \<le> (1 / 2) / 10 ^ d"
    by (rule divide_right_mono) simp
  moreover have "\<bar>of_int (round_half_even (v * 10 ^ d)) - v * 10 ^ d\<bar> / 10 ^ d
      = \<bar>(of_int (round_half_even (v * 10 ^ d)) - v * 10 ^ d) / 10 ^ d\<bar>"
    by simp
  moreover have "(of_int (round_half_even (v * 10 ^ d)) - v * 10 ^ d) / 10 ^ d = py_round v d - v"
    by (simp add: py_round_def diff_divide_distrib)
  ultimately show ?thesis by simp
qed

lemma floor_numeral_divide:
  "\<lfloor>numeral a / numeral b :: rat\<rfloor> = numeral a div numeral b"
  using floor_divide_of_int_eq [where ?'a = rat and k = "numeral a" and l = "numeral b"]
  by simp

lemma py_round_one_decimal:
  "\<exists>n. py_round v 1 = of_int n / 10 \<and> \<bar>of_int n / 10 - v\<bar> \<le> 1 / 20"
proof -
  have "py_round v 1 = of_int (round_half_even (v * 10 ^ 1)) / 10"
    by (simp add: py_round_def)
  moreover have "\<bar>py_round v 1 - v\<bar> \<le> 1 / 20"
    using py_round_error [of v 1] by simp
  ultimately show ?thesis by metis
qed

subsection \<open>The area stage\<close>

lemma default_weight_for_pos_int: "\<exists>n. 0 < n \<and> default_weight_for k = of_int n"
proof (cases "map_of FOOD_CLASSES k")
  case None
  then have "default_weight_for k = of_int 100"
    by (simp add: default_weight_for_def)
  then show ?thesis by (intro exI [of _ 100]) simp
next
  case (Some info)
  then have "(k, info) \<in> set FOOD_CLASSES" by (rule map_of_SomeD)
  then have "0 < default_weight info"
    by (auto simp: FOOD_CLASSES_def)
  moreover have "default_weight_for k = of_int (default_weight info)"
    using Some by (simp add: default_weight_for_def)
  ultimately show ?thesis by blast
qed

lemma scale_factor_bounds: "1 / 2 \<le> scale_factor img bbox" "scale_factor img bbox \<le> 2"
  by (simp_all add: scale_factor_def)

lemma scale_factor_cases:
  "scale_factor img bbox =
     (let r = food_area bbox / (of_nat (image_area img) * 0.15)
      in if r < 0.5 then 0.5 else if 2.0 < r then 2.0 else r)"
  by (simp add: scale_factor_def area_ratio_def typical_ratio_def Let_def max_def min_def)

lemma distinct_FOOD_CLASSES: "distinct (map fst FOOD_CLASSES)"
  by (simp add: FOOD_CLASSES_def)

lemma area_weight_bounds:
  "default_weight_for k / 2 \<le> area_weight img k bbox"
  "area_weight img k bbox \<le> 2 * default_weight_for k"
proof -
  obtain n where n: "0 < n" "default_weight_for k = of_int n"
    using default_weight_for_pos_int by blast
  have "0 \<le> default_weight_for k" using n by simp
  then show "default_weight_for k / 2 \<le> area_weight img k bbox"
    using scale_factor_bounds(1) [of img bbox] mult_left_mono [of "1/2" "scale_factor img bbox" "default_weight_for k"]
    by (simp add: area_weight_def)
  show "area_weight img k bbox \<le> 2 * default_weight_for k"
    using scale_factor_bounds(2) [of img bbox] mult_left_mono [of "scale_factor img bbox" 2 "default_weight_for k"] \<open>0 \<le> default_weight_for k\<close>
    by (simp add: area_weight_def mult.commute)
qed

lemma rounded_area_weight_bounds:
  "default_weight_for k / 2 \<le> py_round (area_weight img k bbox) 1"
  "py_round (area_weight img k bbox) 1 \<le> 2 * default_weight_for k"
  "0 < py_round (area_weight img k bbox) 1"
proof -
  obtain n where n: "0 < n" "default_weight_for k = of_int n"
    using default_weight_for_pos_int by blast
  have lo: "default_weight_for k / 2 = of_int (5 * n) / 10 ^ 1"
    and hi: "2 * default_weight_for k = of_int (20 * n) / 10 ^ 1"
    using n by simp_all
  show 1: "default_weight_for k / 2 \<le> py_round (area_weight img k bbox) 1"
    unfolding lo by (rule py_round_lower) (use area_weight_bounds(1) [where k = k and img = img and bbox = bbox] lo in simp)
  show "py_round (area_weight img k bbox) 1 \<le> 2 * default_weight_for k"
    unfolding hi by (rule py_round_upper) (use area_weight_bounds(2) [where k = k and img = img and bbox = bbox] hi in simp)
  have "0 < default_weight_for k / 2" using n by simp
  with 1 show "0 < py_round (area_weight img k bbox) 1" by linarith
qed


text \<open>
  Claim C1. On an image with positive width and height and without a depth model, the
  estimate for a box with the corners \<open>(x1, y1)\<close> and \<open>(x2, y2)\<close> and a key \<open>k\<close> is the
  default weight times the scale factor, rounded to one decimal. The scale factor is the
  ratio \<open>r\<close> of the box area \<open>(x2 - x1) * (y2 - y1)\<close> to 0.15 times the image area
  \<open>shape0 * shape1\<close>, replaced by 0.5 when \<open>r < 0.5\<close> and by 2.0 when \<open>2.0 < r\<close>; the default
  weight is the table entry of the key, or 100 for a key the table does not have. The
  estimate is a whole number of tenths within 0.05 of the product, it is positive, and it
  lies between 0.5 and 2.0 times the default weight.
\<close>

theorem geometric_estimate:
  assumes "0 < shape1 img" and "0 < shape0 img" and "depth_estimation ml = None"
  shows "estimate_portion ml img k (x1, y1, x2, y2) =
           Inr (py_round
             ((case map_of FOOD_CLASSES k of
                 Some info \<Rightarrow> of_int (default_weight info)
               | None \<Rightarrow> 100)
              * (let r = ((x2 - x1) * (y2 - y1)) / (of_nat (shape0 img * shape1 img) * 0.15)
                 in if r < 0.5 then 0.5 else if 2.0 < r then 2.0 else r)) 1)
       \<and> scale_factor img (x1, y1, x2, y2) =
           (let r = ((x2 - x1) * (y2 - y1)) / (of_nat (shape0 img * shape1 img) * 0.15)
            in if r < 0.5 then 0.5 else if 2.0 < r then 2.0 else r)
       \<and> (\<forall>info. (k, info) \<in> set FOOD_CLASSES \<longrightarrow>
              default_weight_for k = of_int (default_weight info))
       \<and> (k \<notin> fst ` set FOOD_CLASSES \<longrightarrow> default_weight_for k = 100)
       \<and> (\<exists>n. estimate_portion ml img k (x1, y1, x2, y2) = Inr (of_int n / 10)
              \<and> \<bar>of_int n / 10 - default_weight_for k * scale_factor img (x1, y1, x2, y2)\<bar>
                  \<le> 1 / 20)
       \<and> (\<exists>p. estimate_portion ml img k (x1, y1, x2, y2) = Inr p
              \<and> 0 < p
              \<and> 0.5 * default_weight_for k \<le> p
              \<and> p \<le> 2.0 * default_weight_for k)"
proof -
  let ?bbox = "(x1, y1, x2, y2)"
  have table: "default_weight_for k = of_int (default_weight info)"
    if "(k, info) \<in> set FOOD_CLASSES" for info
  proof -
    from that have "map_of FOOD_CLASSES k = Some info"
      using distinct_FOOD_CLASSES by (simp add: map_of_eq_Some_iff)
    then show ?thesis by (simp add: default_weight_for_def)
  qed
  have fallback: "default_weight_for k = 100" if "k \<notin> fst ` set FOOD_CLASSES"
  proof -
    from that have "map_of FOOD_CLASSES k = None"
      by (simp add: map_of_eq_None_iff)
    then show ?thesis by (simp add: default_weight_for_def)
  qed
  have sf: "scale_factor img ?bbox =
      (let r = ((x2 - x1) * (y2 - y1)) / (of_nat (shape0 img * shape1 img) * 0.15)
       in if r < 0.5 then 0.5 else if 2.0 < r then 2.0 else r)"
    using scale_factor_cases [of img ?bbox]
    by (simp add: food_area_def image_area_def)
  have "image_area img \<noteq> 0"
    using assms(1,2) by (simp add: image_area_def)
  then have est: "estimate_portion ml img k ?bbox =
      Inr (py_round (default_weight_for k * scale_factor img ?bbox) 1)"
    using assms(3) by (simp add: estimate_portion_def depth_stage_def area_weight_def)
  have raw: "estimate_portion ml img k ?bbox =
           Inr (py_round
             ((case map_of FOOD_CLASSES k of
                 Some info \<Rightarrow> of_int (default_weight info)
               | None \<Rightarrow> 100)
              * (let r = ((x2 - x1) * (y2 - y1)) / (of_nat (shape0 img * shape1 img) * 0.15)
                 in if r < 0.5 then 0.5 else if 2.0 < r then 2.0 else r)) 1)"
    unfolding est sf [symmetric] by (simp only: default_weight_for_def)
  have tenth: "\<exists>n. estimate_portion ml img k ?bbox = Inr (of_int n / 10)
      \<and> \<bar>of_int n / 10 - default_weight_for k * scale_factor img ?bbox\<bar> \<le> 1 / 20"
    unfolding est
    using py_round_one_decimal [of "default_weight_for k * scale_factor img ?bbox"]
    by auto
  have bounds: "\<exists>p. estimate_portion ml img k ?bbox = Inr p
      \<and> 0 < p \<and> 0.5 * default_weight_for k \<le> p \<and> p \<le> 2.0 * default_weight_for k"
    unfolding est
    using rounded_area_weight_bounds [where k = k and img = img and bbox = ?bbox]
    by (simp add: area_weight_def)
  have t: "\<forall>info. (k, info) \<in> set FOOD_CLASSES \<longrightarrow>
              default_weight_for k = of_int (default_weight info)"
    using table by blast
  have f: "k \<notin> fst ` set FOOD_CLASSES \<longrightarrow> default_weight_for k = 100"
    using fallback by blast
  show ?thesis
    by (rule conjI [OF raw conjI [OF sf conjI [OF t conjI [OF f conjI [OF tenth bounds]]]]])
qed

text \<open>The theorem at an 800 by 1000 image, for a box below the lower edge of the clamp
  (ratio 1/12), a box between the edges (ratio 0.63, where 118 * 0.63 = 74.34 and
  182 * 0.63 = 114.66 are rounded down and up) and a box above the upper edge (ratio
  20/3), for keys of the table and for a key outside it.\<close>

theorem geometric_estimate_witness:
  "0 < shape1 \<lparr>shape0 = 1000, shape1 = 800, pixels = []\<rparr>
   \<and> 0 < shape0 \<lparr>shape0 = 1000, shape1 = 800, pixels = []\<rparr>
   \<and> depth_estimation \<lparr>food_recognition = None, depth_estimation = None\<rparr> = None
   \<and> scale_factor \<lparr>shape0 = 1000, shape1 = 800, pixels = []\<rparr> (10, 20, 110, 120) = 0.5
   \<and> scale_factor \<lparr>shape0 = 1000, shape1 = 800, pixels = []\<rparr> (10, 20, 262, 320) = 0.63
   \<and> scale_factor \<lparr>shape0 = 1000, shape1 = 800, pixels = []\<rparr> (0, 0, 800, 1000) = 2
   \<and> estimate_portion \<lparr>food_recognition = None, depth_estimation = None\<rparr>
        \<lparr>shape0 = 1000, shape1 = 800, pixels = []\<rparr> ''banana'' (10, 20, 110, 120) = Inr 59
   \<and> estimate_portion \<lparr>food_recognition = None, depth_estimation = None\<rparr>
        \<lparr>shape0 = 1000, shape1 = 800, pixels = []\<rparr> ''banana'' (10, 20, 262, 320) = Inr 74.3
   \<and> estimate_portion \<lparr>food_recognition = None, depth_estimation = None\<rparr>
        \<lparr>shape0 = 1000, shape1 = 800, pixels = []\<rparr> ''apple'' (10, 20, 262, 320) = Inr 114.7
   \<and> estimate_portion \<lparr>food_recognition = None, depth_estimation = None\<rparr>
        \<lparr>shape0 = 1000, shape1 = 800, pixels = []\<rparr> ''taco'' (10, 20, 262, 320) = Inr 63
   \<and> estimate_portion \<lparr>food_recognition = None, depth_estimation = None\<rparr>
        \<lparr>shape0 = 1000, shape1 = 800, pixels = []\<rparr> ''banana'' (0, 0, 800, 1000) = Inr 236"
  (is "?h1 \<and> ?h2 \<and> ?h3 \<and> ?s1 \<and> ?s2 \<and> ?s3 \<and> ?e1 \<and> ?e2 \<and> ?e3 \<and> ?e4 \<and> ?e5")
proof -
  let ?img = "\<lparr>shape0 = 1000, shape1 = 800, pixels = []\<rparr>"
  let ?ml = "\<lparr>food_recognition = None, depth_estimation = None\<rparr>"
  have h1: ?h1 and h2: ?h2 and h3: ?h3 by simp_all
  note g = geometric_estimate [where img = ?img and ml = ?ml, OF h1 h2 h3]
  have s1: ?s1
    using g [where ?x1.0 = 10 and ?y1.0 = 20 and ?x2.0 = 110 and ?y2.0 = 120 and k = "''banana''",
        THEN conjunct2, THEN conjunct1]
    by (simp add: Let_def)
  have s2: ?s2
    using g [where ?x1.0 = 10 and ?y1.0 = 20 and ?x2.0 = 262 and ?y2.0 = 320 and k = "''banana''",
        THEN conjunct2, THEN conjunct1]
    by (simp add: Let_def)
  have s3: ?s3
    using g [where ?x1.0 = 0 and ?y1.0 = 0 and ?x2.0 = 800 and ?y2.0 = 1000 and k = "''banana''",
        THEN conjunct2, THEN conjunct1]
    by (simp add: Let_def)
  have e1: ?e1
    using g [where ?x1.0 = 10 and ?y1.0 = 20 and ?x2.0 = 110 and ?y2.0 = 120 and k = "''banana''",
        THEN conjunct1]
    by (simp add: Let_def FOOD_CLASSES_def py_round_def round_half_even_def floor_numeral_divide)
  have e2: ?e2
    using g [where ?x1.0 = 10 and ?y1.0 = 20 and ?x2.0 = 262 and ?y2.0 = 320 and k = "''banana''",
        THEN conjunct1]
    by (simp add: Let_def FOOD_CLASSES_def py_round_def round_half_even_def floor_numeral_divide)
  have e3: ?e3
    using g [where ?x1.0 = 10 and ?y1.0 = 20 and ?x2.0 = 262 and ?y2.0 = 320 and k = "''apple''",
        THEN conjunct1]
    by (simp add: Let_def FOOD_CLASSES_def py_round_def round_half_even_def floor_numeral_divide)
  have e4: ?e4
    using g [where ?x1.0 = 10 and ?y1.0 = 20 and ?x2.0 = 262 and ?y2.0 = 320 and k = "''taco''",
        THEN conjunct1]
    by (simp add: Let_def FOOD_CLASSES_def py_round_def round_half_even_def floor_numeral_divide)
  have e5: ?e5
    using g [where ?x1.0 = 0 and ?y1.0 = 0 and ?x2.0 = 800 and ?y2.0 = 1000 and k = "''banana''",
        THEN conjunct1]
    by (simp add: Let_def FOOD_CLASSES_def py_round_def round_half_even_def floor_numeral_divide)
  show ?thesis
    by (rule conjI [OF h1 conjI [OF h2 conjI [OF h3 conjI [OF s1 conjI [OF s2 conjI [OF s3
          conjI [OF e1 conjI [OF e2 conjI [OF e3 conjI [OF e4 e5]]]]]]]]]])
qed

text \<open>
  Claim C6. A 1000 by 1000 image with one detection labelled apple, confidence 0.9, box
  (100,100)-(400,400), and no depth model: the area ratio is 0.09, the scale factor 0.6,
  the default weight 182, and the analysis returns the single food apple with the
  portion estimate 109.2.
\<close>

theorem apple_scenario:
  "area_ratio \<lparr>shape0 = 1000, shape1 = 1000, pixels = px\<rparr> (100, 100, 400, 400) = 0.09
   \<and> scale_factor \<lparr>shape0 = 1000, shape1 = 1000, pixels = px\<rparr> (100, 100, 400, 400) = 0.6
   \<and> default_weight_for ''apple'' = 182
   \<and> analyze_image
        \<lparr>loader = \<lparr>food_recognition = Some (\<lambda>img thr.
             [\<lparr>boxes = Some [\<lparr>cls = 47, conf = 0.9, xyxy = (100, 100, 400, 400)\<rparr>],
               names = [47 \<mapsto> ''apple'']\<rparr>]),
           depth_estimation = None\<rparr>,
         confidence_threshold = 0.5\<rparr>
        (Inr \<lparr>shape0 = 1000, shape1 = 1000, pixels = px\<rparr>) True
      = Inr \<lparr>detected_foods =
               [\<lparr>fi_name = ''apple'', fi_confidence = 0.9,
                 fi_bounding_box = \<lparr>bb_x = 100, bb_y = 100, bb_width = 300, bb_height = 300\<rparr>\<rparr>],
             portion_estimates = [(''apple'', 109.2)],
             image_dimensions = (1000, 1000)\<rparr>"
  by (simp add: analyze_image_def process_box_def map_to_food_class_def lower_def lower_char_def
      mappings_def estimate_portion_def depth_stage_def area_weight_def default_weight_for_def
      FOOD_CLASSES_def py_round_def round_half_even_def py_int_def scale_factor_def
      typical_ratio_def area_ratio_def food_area_def image_area_def)

subsection \<open>The depth stage and the blend\<close>

lemma estimate_portion_nonempty:
  "0 < shape1 img \<Longrightarrow> 0 < shape0 img \<Longrightarrow>
   estimate_portion ml img k bbox = Inr (py_round (depth_stage ml img bbox (area_weight img k bbox)) 1)"
  by (simp add: estimate_portion_def image_area_def)

lemma depth_based_estimation_noise:
  "dm img (bbox_px bbox) = Inr nd \<Longrightarrow> depth_grams (bbox_px bbox) nd \<le> 10 \<Longrightarrow>
   depth_based_estimation img bbox dm = Inr None"
  by (simp add: depth_based_estimation_def Let_def)

lemma depth_based_estimation_raises:
  "dm img (bbox_px bbox) = Inl e \<Longrightarrow> depth_based_estimation img bbox dm = Inl e"
  by (simp add: depth_based_estimation_def Let_def)

lemma depth_based_estimation_Some:
  "depth_based_estimation img bbox dm = Inr (Some d) \<Longrightarrow> 10 < d"
  by (auto simp: depth_based_estimation_def Let_def split: sum.splits if_splits)

lemma process_box_kept:
  assumes "nms (cls b) = Some label" and "map_to_food_class label = Some k" and "k \<noteq> []"
    and "estimate_portion ml img k (xyxy b) = Inr p"
  shows "process_box ml img True nms b (foods, estimates) =
     Inr (foods @ [\<lparr>fi_name = k, fi_confidence = py_round (conf b) 3,
                     fi_bounding_box =
                       \<lparr>bb_x = py_int (fst (xyxy b)), bb_y = py_int (fst (snd (xyxy b))),
                        bb_width = py_int (fst (snd (snd (xyxy b))) - fst (xyxy b)),
                        bb_height = py_int (snd (snd (snd (xyxy b))) - fst (snd (xyxy b)))\<rparr>\<rparr>],
          AList.update k p estimates)"
  using assms by (cases "xyxy b") (simp add: process_box_def)

lemma blend_arith:
  fixes a b w d :: rat
  assumes "\<bar>a - (w + d) / 2\<bar> \<le> 1 / 20" and "\<bar>b - w\<bar> \<le> 1 / 20"
  shows "\<bar>a - (b + d) / 2\<bar> \<le> 3 / 40"
proof -
  have 1: "a - (w + d) / 2 \<le> 1 / 20" "(w + d) / 2 - a \<le> 1 / 20"
    using assms(1) by (simp_all only: abs_le_iff minus_diff_eq)
  have 2: "b - w \<le> 1 / 20" "w - b \<le> 1 / 20"
    using assms(2) by (simp_all only: abs_le_iff minus_diff_eq)
  have "a - (b + d) / 2 \<le> 3 / 40"
    using 1(1) 2(2) by (simp add: field_simps)
  moreover have "(b + d) / 2 - a \<le> 3 / 40"
    using 1(2) 2(1) by (simp add: field_simps)
  ultimately show ?thesis
    by (simp only: abs_le_iff minus_diff_eq)
qed

text \<open>
  Claim C3. When the depth stage returns an estimate, that estimate is above 10 g and
  the final portion is the arithmetic mean of the area estimate and the depth estimate,
  rounded to one decimal: it differs from the mean of the two unrounded signals by at
  most 0.05 and from the mean taken with the rounded area estimate by at most 0.075.
  For a box of 90000 pixels, normalised depth 0.5 and the factor 0.001 the depth signal
  is 45 g, and blended with the area estimate 109.2 g the final value is 77.1 g.
\<close>

theorem blend_is_mean:
  "(0 < shape1 img \<and> 0 < shape0 img \<and> depth_estimation ml = Some dm
      \<and> depth_based_estimation img bbox dm = Inr (Some d) \<longrightarrow>
      10 < d
      \<and> estimate_portion ml img k bbox = Inr (py_round ((area_weight img k bbox + d) / 2) 1)
      \<and> \<bar>py_round ((area_weight img k bbox + d) / 2) 1 - (area_weight img k bbox + d) / 2\<bar> \<le> 1 / 20
      \<and> \<bar>py_round ((area_weight img k bbox + d) / 2) 1
           - (py_round (area_weight img k bbox) 1 + d) / 2\<bar> \<le> 3 / 40)
   \<and> depth_grams (0, 0, 300, 300) 0.5 = 45
   \<and> depth_based_estimation \<lparr>shape0 = 1000, shape1 = 1000, pixels = px\<rparr> (100, 100, 400, 400)
        (\<lambda>i p. Inr 0.5) = Inr (Some 45)
   \<and> area_weight \<lparr>shape0 = 1000, shape1 = 1000, pixels = px\<rparr> ''apple'' (100, 100, 400, 400) = 109.2
   \<and> estimate_portion \<lparr>food_recognition = fm, depth_estimation = Some (\<lambda>i p. Inr 0.5)\<rparr>
        \<lparr>shape0 = 1000, shape1 = 1000, pixels = px\<rparr> ''apple'' (100, 100, 400, 400) = Inr 77.1"
proof -
  have general: "10 < d
      \<and> estimate_portion ml img k bbox = Inr (py_round ((area_weight img k bbox + d) / 2) 1)
      \<and> \<bar>py_round ((area_weight img k bbox + d) / 2) 1 - (area_weight img k bbox + d) / 2\<bar> \<le> 1 / 20
      \<and> \<bar>py_round ((area_weight img k bbox + d) / 2) 1
           - (py_round (area_weight img k bbox) 1 + d) / 2\<bar> \<le> 3 / 40"
    if h: "0 < shape1 img" "0 < shape0 img" "depth_estimation ml = Some dm"
      "depth_based_estimation img bbox dm = Inr (Some d)"
  proof -
    have d: "10 < d" using h(4) by (rule depth_based_estimation_Some)
    then have "depth_stage ml img bbox (area_weight img k bbox) = (area_weight img k bbox + d) / 2"
      using h(3,4) by (simp add: depth_stage_def)
    moreover have "estimate_portion ml img k bbox =
        Inr (py_round (depth_stage ml img bbox (area_weight img k bbox)) 1)"
      using h(1,2) by (rule estimate_portion_nonempty)
    ultimately have est: "estimate_portion ml img k bbox =
        Inr (py_round ((area_weight img k bbox + d) / 2) 1)"
      by (simp only:)
    have e1: "\<bar>py_round ((area_weight img k bbox + d) / 2) 1 - (area_weight img k bbox + d) / 2\<bar>
        \<le> 1 / 20"
      using py_round_error [of "(area_weight img k bbox + d) / 2" 1] by simp
    have e2: "\<bar>py_round (area_weight img k bbox) 1 - area_weight img k bbox\<bar> \<le> 1 / 20"
      using py_round_error [of "area_weight img k bbox" 1] by simp
    have "\<bar>py_round ((area_weight img k bbox + d) / 2) 1
           - (py_round (area_weight img k bbox) 1 + d) / 2\<bar> \<le> 3 / 40"
      using e1 e2 by (rule blend_arith)
    with d est e1 show ?thesis by blast
  qed
  have s1: "depth_grams (0, 0, 300, 300) 0.5 = 45"
    by (simp add: depth_grams_def)
  have s2: "depth_based_estimation \<lparr>shape0 = 1000, shape1 = 1000, pixels = px\<rparr> (100, 100, 400, 400)
        (\<lambda>i p. Inr 0.5) = Inr (Some 45)"
    by (simp add: depth_based_estimation_def bbox_px_def py_int_def depth_grams_def)
  have s3: "area_weight \<lparr>shape0 = 1000, shape1 = 1000, pixels = px\<rparr> ''apple'' (100, 100, 400, 400) = 109.2"
    by (simp add: area_weight_def default_weight_for_def FOOD_CLASSES_def scale_factor_def
        area_ratio_def food_area_def image_area_def typical_ratio_def)
  have s4: "estimate_portion \<lparr>food_recognition = fm, depth_estimation = Some (\<lambda>i p. Inr 0.5)\<rparr>
        \<lparr>shape0 = 1000, shape1 = 1000, pixels = px\<rparr> ''apple'' (100, 100, 400, 400) = Inr 77.1"
    by (simp add: estimate_portion_def image_area_def depth_stage_def depth_based_estimation_def
        bbox_px_def py_int_def depth_grams_def area_weight_def default_weight_for_def
        FOOD_CLASSES_def scale_factor_def area_ratio_def food_area_def typical_ratio_def
        py_round_def round_half_even_def Let_def)
  have gen: "0 < shape1 img \<and> 0 < shape0 img \<and> depth_estimation ml = Some dm
      \<and> depth_based_estimation img bbox dm = Inr (Some d) \<longrightarrow>
      10 < d
      \<and> estimate_portion ml img k bbox = Inr (py_round ((area_weight img k bbox + d) / 2) 1)
      \<and> \<bar>py_round ((area_weight img k bbox + d) / 2) 1 - (area_weight img k bbox + d) / 2\<bar> \<le> 1 / 20
      \<and> \<bar>py_round ((area_weight img k bbox + d) / 2) 1
           - (py_round (area_weight img k bbox) 1 + d) / 2\<bar> \<le> 3 / 40"
    using general by (intro impI) (elim conjE)
  show ?thesis
    by (rule conjI [OF gen conjI [OF s1 conjI [OF s2 conjI [OF s3 s4]]]])
qed

text \<open>The theorem at a 600 by 300 box of a banana with normalised depth 0.25.\<close>

theorem blend_is_mean_witness:
  "depth_based_estimation \<lparr>shape0 = 1000, shape1 = 1000, pixels = []\<rparr> (0, 0, 600, 300)
      (\<lambda>i p. Inr (1 / 4)) = Inr (Some 45)
   \<and> area_weight \<lparr>shape0 = 1000, shape1 = 1000, pixels = []\<rparr> ''banana'' (0, 0, 600, 300) = 141.6
   \<and> estimate_portion \<lparr>food_recognition = None, depth_estimation = Some (\<lambda>i p. Inr (1 / 4))\<rparr>
       \<lparr>shape0 = 1000, shape1 = 1000, pixels = []\<rparr> ''banana'' (0, 0, 600, 300) = Inr 93.3"
proof -
  let ?img = "\<lparr>shape0 = 1000, shape1 = 1000, pixels = []\<rparr>"
  let ?bbox = "(0, 0, 600, 300) :: bbox"
  let ?ml = "\<lparr>food_recognition = None, depth_estimation = Some (\<lambda>i p. Inr (1 / 4))\<rparr>"
  have d: "depth_based_estimation ?img ?bbox (\<lambda>i p. Inr (1 / 4)) = Inr (Some 45)"
    by (simp add: depth_based_estimation_def bbox_px_def py_int_def depth_grams_def)
  have w: "area_weight ?img ''banana'' ?bbox = 141.6"
    by (simp add: area_weight_def default_weight_for_def FOOD_CLASSES_def scale_factor_def
        area_ratio_def food_area_def image_area_def typical_ratio_def)
  have r: "py_round ((141.6 + 45) / 2) 1 = 93.3"
    by (simp add: py_round_def round_half_even_def Let_def)
  have hyp: "0 < shape1 ?img \<and> 0 < shape0 ?img \<and> depth_estimation ?ml = Some (\<lambda>i p. Inr (1 / 4))
      \<and> depth_based_estimation ?img ?bbox (\<lambda>i p. Inr (1 / 4)) = Inr (Some 45)"
    using d by simp
  have "estimate_portion ?ml ?img ''banana'' ?bbox
      = Inr (py_round ((area_weight ?img ''banana'' ?bbox + 45) / 2) 1)"
    using blend_is_mean [where img = ?img and ml = ?ml and dm = "\<lambda>i p. Inr (1 / 4)"
        and bbox = ?bbox and d = 45 and k = "''banana''", THEN conjunct1, rule_format, OF hyp]
    by (rule conjunct2 [THEN conjunct1])
  then have "estimate_portion ?ml ?img ''banana'' ?bbox = Inr 93.3"
    unfolding w r .
  with d w show ?thesis by (intro conjI)
qed

subsection \<open>Independence of the pixel content\<close>

text \<open>
  Claim C10. Without a depth model the portion estimate of a detection is a function of
  the image's height and width, the box and the food key only: two images of equal
  dimensions give the same estimate, whatever their pixels.
\<close>

theorem geometric_ignores_pixels:
  assumes "shape0 img1 = shape0 img2" and "shape1 img1 = shape1 img2"
    and "depth_estimation ml = None"
  shows "estimate_portion ml img1 k bbox = estimate_portion ml img2 k bbox"
  using assms
  by (simp add: estimate_portion_def depth_stage_def area_weight_def scale_factor_def
      area_ratio_def image_area_def)

text \<open>The theorem at two 600 by 500 images with different pixel buffers.\<close>

theorem geometric_ignores_pixels_witness:
  "estimate_portion \<lparr>food_recognition = None, depth_estimation = None\<rparr>
      \<lparr>shape0 = 500, shape1 = 600, pixels = [0, 0, 0]\<rparr> ''pizza'' (10, 10, 190, 310)
   = estimate_portion \<lparr>food_recognition = None, depth_estimation = None\<rparr>
      \<lparr>shape0 = 500, shape1 = 600, pixels = [255, 17, 3]\<rparr> ''pizza'' (10, 10, 190, 310)
   \<and> estimate_portion \<lparr>food_recognition = None, depth_estimation = None\<rparr>
      \<lparr>shape0 = 500, shape1 = 600, pixels = [255, 17, 3]\<rparr> ''pizza'' (10, 10, 190, 310) = Inr 128.4
   \<and> pixels \<lparr>shape0 = 500, shape1 = 600, pixels = [0, 0, 0]\<rparr>
       \<noteq> pixels \<lparr>shape0 = 500, shape1 = 600, pixels = [255, 17, 3]\<rparr>"
proof -
  have "estimate_portion \<lparr>food_recognition = None, depth_estimation = None\<rparr>
      \<lparr>shape0 = 500, shape1 = 600, pixels = [255, 17, 3]\<rparr> ''pizza'' (10, 10, 190, 310) = Inr 128.4"
    by (simp add: estimate_portion_def depth_stage_def area_weight_def default_weight_for_def
        FOOD_CLASSES_def scale_factor_def area_ratio_def food_area_def image_area_def
        typical_ratio_def py_round_def round_half_even_def Let_def)
  moreover have "estimate_portion \<lparr>food_recognition = None, depth_estimation = None\<rparr>
      \<lparr>shape0 = 500, shape1 = 600, pixels = [0, 0, 0]\<rparr> ''pizza'' (10, 10, 190, 310)
   = estimate_portion \<lparr>food_recognition = None, depth_estimation = None\<rparr>
      \<lparr>shape0 = 500, shape1 = 600, pixels = [255, 17, 3]\<rparr> ''pizza'' (10, 10, 190, 310)"
    by (rule geometric_ignores_pixels) simp_all
  ultimately show ?thesis by simp
qed

subsection \<open>No depth estimate\<close>

text \<open>
  Claim C2. On an image with positive width and height, when the depth stage gives no
  estimate for a box (no depth model is loaded, or the depth estimation raises, or the
  computed depth weight is at most 10 g, for which the depth estimation returns no
  value), the portion estimate is the area estimate alone, rounded to one decimal, and
  the step of the analysis for a kept box of that food returns normally and stores
  exactly this value under the food key.
\<close>

theorem no_depth_estimate_geometric_only:
  assumes "0 < shape1 img" and "0 < shape0 img"
    and "depth_estimation ml = None
         \<or> (\<exists>dm. depth_estimation ml = Some dm \<and>
               ((\<exists>e. dm img (bbox_px bbox) = Inl e)
                \<or> (\<exists>nd. dm img (bbox_px bbox) = Inr nd \<and> depth_grams (bbox_px bbox) nd \<le> 10)))"
  shows "estimate_portion ml img k bbox = Inr (py_round (area_weight img k bbox) 1)
       \<and> (\<forall>dm nd. depth_estimation ml = Some dm \<and> dm img (bbox_px bbox) = Inr nd
              \<and> depth_grams (bbox_px bbox) nd \<le> 10 \<longrightarrow>
            depth_based_estimation img bbox dm = Inr None)
       \<and> (\<forall>nms b label foods estimates.
             nms (cls b) = Some label \<and> map_to_food_class label = Some k \<and> k \<noteq> []
               \<and> xyxy b = bbox \<longrightarrow>
             (\<exists>foods'. process_box ml img True nms b (foods, estimates) =
                Inr (foods', AList.update k (py_round (area_weight img k bbox) 1) estimates)))"
proof -
  have stage: "depth_stage ml img bbox w = w" for w
    using assms(3)
  proof (elim disjE exE conjE)
    assume "depth_estimation ml = None"
    then show ?thesis by (simp add: depth_stage_def)
  next
    fix dm e
    assume "depth_estimation ml = Some dm" and "dm img (bbox_px bbox) = Inl e"
    then show ?thesis
      by (simp add: depth_stage_def depth_based_estimation_raises)
  next
    fix dm nd
    assume "depth_estimation ml = Some dm" and "dm img (bbox_px bbox) = Inr nd"
      and "depth_grams (bbox_px bbox) nd \<le> 10"
    then show ?thesis
      by (simp add: depth_stage_def depth_based_estimation_noise)
  qed
  have est: "estimate_portion ml img k bbox = Inr (py_round (area_weight img k bbox) 1)"
    using assms(1,2) by (simp add: estimate_portion_nonempty stage)
  have noise: "\<forall>dm nd. depth_estimation ml = Some dm \<and> dm img (bbox_px bbox) = Inr nd
              \<and> depth_grams (bbox_px bbox) nd \<le> 10 \<longrightarrow>
            depth_based_estimation img bbox dm = Inr None"
    by (intro allI impI) (elim conjE, rule depth_based_estimation_noise)
  have box: "\<forall>nms b label foods estimates.
             nms (cls b) = Some label \<and> map_to_food_class label = Some k \<and> k \<noteq> []
               \<and> xyxy b = bbox \<longrightarrow>
             (\<exists>foods'. process_box ml img True nms b (foods, estimates) =
                Inr (foods', AList.update k (py_round (area_weight img k bbox) 1) estimates))"
  proof (intro allI impI, elim conjE)
    fix nms :: "int \<Rightarrow> string option" and b :: box and label :: string
      and foods :: "food_info list" and estimates :: "(string \<times> rat) list"
    assume h: "nms (cls b) = Some label" "map_to_food_class label = Some k" "k \<noteq> []"
      "xyxy b = bbox"
    have "estimate_portion ml img k (xyxy b) = Inr (py_round (area_weight img k bbox) 1)"
      using est h(4) by simp
    from process_box_kept [where nms = nms and b = b and label = label and k = k and ml = ml
        and img = img and p = "py_round (area_weight img k bbox) 1" and foods = foods
        and estimates = estimates, OF h(1) h(2) h(3) this]
    show "\<exists>foods'. process_box ml img True nms b (foods, estimates) =
        Inr (foods', AList.update k (py_round (area_weight img k bbox) 1) estimates)"
      by (rule exI)
  qed
  show ?thesis
    by (rule conjI [OF est conjI [OF noise box]])
qed

text \<open>The theorem at a 100 by 100 box of an apple, for the three ways of having no
  depth estimate; the third depth weight is exactly 10 g.\<close>

theorem no_depth_estimate_geometric_only_witness:
  "estimate_portion \<lparr>food_recognition = None, depth_estimation = None\<rparr>
      \<lparr>shape0 = 1000, shape1 = 1000, pixels = []\<rparr> ''apple'' (100, 100, 200, 200) = Inr 91
   \<and> estimate_portion \<lparr>food_recognition = None, depth_estimation = Some (\<lambda>i p. Inl RuntimeError)\<rparr>
      \<lparr>shape0 = 1000, shape1 = 1000, pixels = []\<rparr> ''apple'' (100, 100, 200, 200) = Inr 91
   \<and> depth_grams (bbox_px (100, 100, 200, 200)) 1 = 10
   \<and> estimate_portion \<lparr>food_recognition = None, depth_estimation = Some (\<lambda>i p. Inr 1)\<rparr>
      \<lparr>shape0 = 1000, shape1 = 1000, pixels = []\<rparr> ''apple'' (100, 100, 200, 200) = Inr 91"
proof -
  let ?img = "\<lparr>shape0 = 1000, shape1 = 1000, pixels = []\<rparr>"
  let ?bbox = "(100, 100, 200, 200) :: bbox"
  have dims: "0 < shape1 ?img" "0 < shape0 ?img" by simp_all
  have w: "py_round (area_weight ?img ''apple'' ?bbox) 1 = 91"
    by (simp add: area_weight_def default_weight_for_def FOOD_CLASSES_def scale_factor_def
        area_ratio_def food_area_def image_area_def typical_ratio_def py_round_def
        round_half_even_def Let_def)
  have g: "depth_grams (bbox_px ?bbox) 1 = 10"
    by (simp add: bbox_px_def depth_grams_def py_int_def)
  have absent: "depth_estimation \<lparr>food_recognition = None, depth_estimation = None\<rparr> = None
      \<or> (\<exists>dm. depth_estimation \<lparr>food_recognition = None, depth_estimation = None\<rparr> = Some dm \<and>
            ((\<exists>e. dm ?img (bbox_px ?bbox) = Inl e)
             \<or> (\<exists>nd. dm ?img (bbox_px ?bbox) = Inr nd \<and> depth_grams (bbox_px ?bbox) nd \<le> 10)))"
    by simp
  have raises: "depth_estimation \<lparr>food_recognition = None, depth_estimation = Some (\<lambda>i p. Inl RuntimeError)\<rparr> = None
      \<or> (\<exists>dm. depth_estimation \<lparr>food_recognition = None, depth_estimation = Some (\<lambda>i p. Inl RuntimeError)\<rparr> = Some dm \<and>
            ((\<exists>e. dm ?img (bbox_px ?bbox) = Inl e)
             \<or> (\<exists>nd. dm ?img (bbox_px ?bbox) = Inr nd \<and> depth_grams (bbox_px ?bbox) nd \<le> 10)))"
    by simp
  have noise: "depth_estimation \<lparr>food_recognition = None, depth_estimation = Some (\<lambda>i p. Inr 1)\<rparr> = None
      \<or> (\<exists>dm. depth_estimation \<lparr>food_recognition = None, depth_estimation = Some (\<lambda>i p. Inr 1)\<rparr> = Some dm \<and>
            ((\<exists>e. dm ?img (bbox_px ?bbox) = Inl e)
             \<or> (\<exists>nd. dm ?img (bbox_px ?bbox) = Inr nd \<and> depth_grams (bbox_px ?bbox) nd \<le> 10)))"
    using g by simp
  have e1: "estimate_portion \<lparr>food_recognition = None, depth_estimation = None\<rparr> ?img ''apple'' ?bbox
      = Inr (py_round (area_weight ?img ''apple'' ?bbox) 1)"
    by (rule no_depth_estimate_geometric_only [OF dims absent, THEN conjunct1])
  have e2: "estimate_portion \<lparr>food_recognition = None, depth_estimation = Some (\<lambda>i p. Inl RuntimeError)\<rparr>
      ?img ''apple'' ?bbox = Inr (py_round (area_weight ?img ''apple'' ?bbox) 1)"
    by (rule no_depth_estimate_geometric_only [OF dims raises, THEN conjunct1])
  have e3: "estimate_portion \<lparr>food_recognition = None, depth_estimation = Some (\<lambda>i p. Inr 1)\<rparr>
      ?img ''apple'' ?bbox = Inr (py_round (area_weight ?img ''apple'' ?bbox) 1)"
    by (rule no_depth_estimate_geometric_only [OF dims noise, THEN conjunct1])
  show ?thesis
    unfolding e1 e2 e3 w g by (intro conjI refl)
qed

subsection \<open>The taxonomy mapper\<close>

lemma lower_fixed: "(\<And>c. c \<in> set l \<Longrightarrow> lower_char c = c) \<Longrightarrow> lower l = l"
  by (simp add: lower_def map_idI)

lemma lower_char_fixed_iff:
  "lower_char c = c \<longleftrightarrow>
     \<not> ((65 \<le> (of_char c :: nat) \<and> (of_char c :: nat) \<le> 90)
        \<or> (192 \<le> (of_char c :: nat) \<and> (of_char c :: nat) \<le> 222 \<and> (of_char c :: nat) \<noteq> 215))"
proof -
  have ne: "char_of (n + 32) \<noteq> c" if "n = (of_char c :: nat)" "n \<le> 222" for n
  proof
    assume "char_of (n + 32) = c"
    then have "(of_char (char_of (n + 32) :: char) :: nat) = of_char c" by simp
    then have "(n + 32) mod 256 = n" using that(1) by (simp add: of_char_of)
    with that(2) show False by simp
  qed
  show ?thesis
    using ne [of "of_char c"] by (auto simp: lower_char_def Let_def)
qed

lemma lower_fixed_iff: "lower l = l \<longleftrightarrow> (\<forall>c \<in> set l. lower_char c = c)"
  by (induction l) (auto simp: lower_def)

lemma process_box_dropped:
  assumes "nms (cls b) = Some l" and "map_to_food_class l = None \<or> map_to_food_class l = Some []"
  shows "process_box ml img inc nms b st = Inr st"
  using assms by (cases st; cases "xyxy b") (auto simp: process_box_def)

text \<open>
  The label Taco matches no key of the table and no alias, yet it does not pass through
  unchanged: the mapper returns it in lower case.
\<close>

theorem taxonomy_passthrough_counterexample:
  "map_of FOOD_CLASSES (lower ''Taco'') = None
   \<and> map_of mappings (lower ''Taco'') = None
   \<and> map_to_food_class ''Taco'' = Some ''taco''
   \<and> map_to_food_class ''Taco'' \<noteq> Some ''Taco''"
  by (simp add: map_to_food_class_def lower_def lower_char_def FOOD_CLASSES_def mappings_def
      char_of_def bit_0)

text \<open>
  Claim C4, as the code has it. The mapper lower-cases the label first. A lower-cased
  label that is a key of the table is returned; the lower-cased aliases hot dog, french
  fries, doughnut, cup and bowl give hotdog, fries, donut, coffee and soup; the
  lower-cased label plate gives no key, and the step of the analysis for a box with such
  a label leaves the detected foods and the portion estimates as they were; every other
  label is passed through in lower case, which is the label itself exactly when none of
  its characters is a capital letter (\<open>A\<close> to \<open>Z\<close>, or a capital letter of Latin-1).
\<close>

theorem taxonomy_mapping:
  "(map_of FOOD_CLASSES (lower l) \<noteq> None \<longrightarrow> map_to_food_class l = Some (lower l))
   \<and> (lower l = ''hot dog'' \<longrightarrow> map_to_food_class l = Some ''hotdog'')
   \<and> (lower l = ''french fries'' \<longrightarrow> map_to_food_class l = Some ''fries'')
   \<and> (lower l = ''doughnut'' \<longrightarrow> map_to_food_class l = Some ''donut'')
   \<and> (lower l = ''cup'' \<longrightarrow> map_to_food_class l = Some ''coffee'')
   \<and> (lower l = ''bowl'' \<longrightarrow> map_to_food_class l = Some ''soup'')
   \<and> (lower l = ''plate'' \<longrightarrow>
        map_to_food_class l = None
        \<and> (\<forall>ml img inc nms b st. nms (cls b) = Some l \<longrightarrow>
              process_box ml img inc nms b st = Inr st))
   \<and> (map_of FOOD_CLASSES (lower l) = None \<and> map_of mappings (lower l) = None \<longrightarrow>
        map_to_food_class l = Some (lower l)
        \<and> (map_to_food_class l = Some l \<longleftrightarrow> (\<forall>c \<in> set l. lower_char c = c)))
   \<and> (lower l = l \<longleftrightarrow> (\<forall>c \<in> set l. lower_char c = c))
   \<and> (\<forall>c. lower_char c = c \<longleftrightarrow>
          \<not> ((65 \<le> (of_char c :: nat) \<and> (of_char c :: nat) \<le> 90)
             \<or> (192 \<le> (of_char c :: nat) \<and> (of_char c :: nat) \<le> 222
                 \<and> (of_char c :: nat) \<noteq> 215)))"
proof -
  have plate: "map_to_food_class l = None" if "lower l = ''plate''"
    using that by (simp add: map_to_food_class_def FOOD_CLASSES_def mappings_def)
  have dropped: "\<forall>ml img inc nms b st. nms (cls b) = Some l \<longrightarrow>
      process_box ml img inc nms b st = Inr st" if "lower l = ''plate''"
    using plate [OF that] by (auto intro: process_box_dropped)
  have first: "(map_of FOOD_CLASSES (lower l) \<noteq> None \<longrightarrow> map_to_food_class l = Some (lower l))
   \<and> (lower l = ''hot dog'' \<longrightarrow> map_to_food_class l = Some ''hotdog'')
   \<and> (lower l = ''french fries'' \<longrightarrow> map_to_food_class l = Some ''fries'')
   \<and> (lower l = ''doughnut'' \<longrightarrow> map_to_food_class l = Some ''donut'')
   \<and> (lower l = ''cup'' \<longrightarrow> map_to_food_class l = Some ''coffee'')
   \<and> (lower l = ''bowl'' \<longrightarrow> map_to_food_class l = Some ''soup'')
   \<and> (lower l = ''plate'' \<longrightarrow>
        map_to_food_class l = None
        \<and> (\<forall>ml img inc nms b st. nms (cls b) = Some l \<longrightarrow>
              process_box ml img inc nms b st = Inr st))"
    using plate dropped
    by (auto simp: map_to_food_class_def FOOD_CLASSES_def mappings_def)
  have other: "map_of FOOD_CLASSES (lower l) = None \<and> map_of mappings (lower l) = None \<longrightarrow>
        map_to_food_class l = Some (lower l)
        \<and> (map_to_food_class l = Some l \<longleftrightarrow> (\<forall>c \<in> set l. lower_char c = c))"
  proof
    assume a: "map_of FOOD_CLASSES (lower l) = None \<and> map_of mappings (lower l) = None"
    then have m: "map_to_food_class l = Some (lower l)"
      by (simp add: map_to_food_class_def)
    then show "map_to_food_class l = Some (lower l)
        \<and> (map_to_food_class l = Some l \<longleftrightarrow> (\<forall>c \<in> set l. lower_char c = c))"
      by (simp add: lower_fixed_iff)
  qed
  have caps: "\<forall>c. lower_char c = c \<longleftrightarrow>
          \<not> ((65 \<le> (of_char c :: nat) \<and> (of_char c :: nat) \<le> 90)
             \<or> (192 \<le> (of_char c :: nat) \<and> (of_char c :: nat) \<le> 222
                 \<and> (of_char c :: nat) \<noteq> 215))"
    using lower_char_fixed_iff by blast
  from first have
    c1: "map_of FOOD_CLASSES (lower l) \<noteq> None \<longrightarrow> map_to_food_class l = Some (lower l)"
    and c2: "lower l = ''hot dog'' \<longrightarrow> map_to_food_class l = Some ''hotdog''"
    and c3: "lower l = ''french fries'' \<longrightarrow> map_to_food_class l = Some ''fries''"
    and c4: "lower l = ''doughnut'' \<longrightarrow> map_to_food_class l = Some ''donut''"
    and c5: "lower l = ''cup'' \<longrightarrow> map_to_food_class l = Some ''coffee''"
    and c6: "lower l = ''bowl'' \<longrightarrow> map_to_food_class l = Some ''soup''"
    and c7: "lower l = ''plate'' \<longrightarrow>
        map_to_food_class l = None
        \<and> (\<forall>ml img inc nms b st. nms (cls b) = Some l \<longrightarrow>
              process_box ml img inc nms b st = Inr st)"
    by blast+
  show ?thesis
    by (rule conjI [OF c1 conjI [OF c2 conjI [OF c3 conjI [OF c4 conjI [OF c5 conjI [OF c6
          conjI [OF c7 conjI [OF other conjI [OF lower_fixed_iff caps]]]]]]]]])
qed

text \<open>The theorem at one label of each kind; the label Taco has a capital letter and is
  not returned unchanged, the label taco has none and is.\<close>

theorem taxonomy_mapping_witness:
  "map_to_food_class ''APPLE'' = Some ''apple''
   \<and> map_to_food_class ''Hot Dog'' = Some ''hotdog''
   \<and> map_to_food_class ''Cup'' = Some ''coffee''
   \<and> map_to_food_class ''bowl'' = Some ''soup''
   \<and> map_to_food_class ''Plate'' = None
   \<and> map_to_food_class ''Taco'' = Some ''taco''
   \<and> map_to_food_class ''Taco'' \<noteq> Some ''Taco''
   \<and> map_to_food_class ''taco'' = Some ''taco''
   \<and> lower ''taco'' = ''taco''
   \<and> lower ''Taco'' \<noteq> ''Taco''
   \<and> lower_char CHR ''T'' \<noteq> CHR ''T''"
proof -
  have l: "lower ''APPLE'' = ''apple''" "lower ''Hot Dog'' = ''hot dog''" "lower ''Cup'' = ''cup''"
    "lower ''bowl'' = ''bowl''" "lower ''Plate'' = ''plate''" "lower ''Taco'' = ''taco''"
    "lower ''taco'' = ''taco''"
    by (simp_all add: lower_def lower_char_def char_of_def bit_0)
  have 1: "map_to_food_class ''APPLE'' = Some ''apple''"
    using taxonomy_mapping [of "''APPLE''"] by (simp add: l FOOD_CLASSES_def)
  have 2: "map_to_food_class ''Hot Dog'' = Some ''hotdog''"
    using taxonomy_mapping [of "''Hot Dog''"] by (simp add: l)
  have 3: "map_to_food_class ''Cup'' = Some ''coffee''"
    using taxonomy_mapping [of "''Cup''"] by (simp add: l)
  have 4: "map_to_food_class ''bowl'' = Some ''soup''"
    using taxonomy_mapping [of "''bowl''"] by (simp add: l)
  have 5: "map_to_food_class ''Plate'' = None"
    using taxonomy_mapping [of "''Plate''"] by (simp add: l)
  have o: "map_of FOOD_CLASSES ''taco'' = None \<and> map_of mappings ''taco'' = None"
    by (simp add: FOOD_CLASSES_def mappings_def)
  have t: "lower_char CHR ''T'' \<noteq> CHR ''T''"
    using taxonomy_mapping [of "''Taco''", THEN conjunct2, THEN conjunct2, THEN conjunct2,
        THEN conjunct2, THEN conjunct2, THEN conjunct2, THEN conjunct2, THEN conjunct2,
        THEN conjunct2, THEN spec, of "CHR ''T''"]
    by simp
  have 6: "map_to_food_class ''Taco'' = Some ''taco''"
    and 7: "map_to_food_class ''Taco'' \<noteq> Some ''Taco''"
    using taxonomy_mapping [of "''Taco''", THEN conjunct2, THEN conjunct2, THEN conjunct2,
        THEN conjunct2, THEN conjunct2, THEN conjunct2, THEN conjunct2, THEN conjunct1] o t
    by (simp_all add: l)
  have 8: "map_to_food_class ''taco'' = Some ''taco''"
    using taxonomy_mapping [of "''taco''", THEN conjunct2, THEN conjunct2, THEN conjunct2,
        THEN conjunct2, THEN conjunct2, THEN conjunct2, THEN conjunct2, THEN conjunct1] o
    by (simp add: l)
  have 9: "lower ''taco'' = ''taco''" by (rule l)
  have 10: "lower ''Taco'' \<noteq> ''Taco''"
    using taxonomy_mapping [of "''Taco''", THEN conjunct2, THEN conjunct2, THEN conjunct2,
        THEN conjunct2, THEN conjunct2, THEN conjunct2, THEN conjunct2, THEN conjunct2,
        THEN conjunct1] t
    by simp
  show ?thesis
    by (rule conjI [OF 1 conjI [OF 2 conjI [OF 3 conjI [OF 4 conjI [OF 5 conjI [OF 6
          conjI [OF 7 conjI [OF 8 conjI [OF 9 conjI [OF 10 t]]]]]]]]]])
qed

subsection \<open>The loops of the analysis\<close>

lemma process_box_result:
  assumes "process_box ml img inc nms b (foods, estimates) = Inr st'"
  shows "st' = (foods, estimates)
       \<or> (\<exists>info. fst st' = foods @ [info]
            \<and> (snd st' = estimates \<or> (\<exists>p. snd st' = AList.update (fi_name info) p estimates)))"
proof -
  obtain x1 y1 x2 y2 where xy: "xyxy b = (x1, y1, x2, y2)"
    by (cases "xyxy b") auto
  show ?thesis
    using assms
    by (auto simp: process_box_def xy Let_def split: option.splits if_splits sum.splits)
qed

lemma process_box_keys_detected:
  assumes "process_box ml img inc nms b st = Inr st'" and "keys_detected st"
  shows "keys_detected st'"
proof (cases st)
  case (Pair foods estimates)
  from assms(2) have inv: "fst ` set estimates \<subseteq> fi_name ` set foods"
    by (simp add: keys_detected_def Pair)
  from assms(1) consider
      (same) "st' = (foods, estimates)"
    | (food) info where "fst st' = foods @ [info]" "snd st' = estimates"
    | (both) info p where "fst st' = foods @ [info]"
        "snd st' = AList.update (fi_name info) p estimates"
    unfolding Pair using process_box_result [of ml img inc nms b foods estimates st'] by blast
  then show ?thesis
  proof cases
    case same
    with inv show ?thesis by (simp add: keys_detected_def)
  next
    case food
    with inv show ?thesis by (auto simp: keys_detected_def)
  next
    case both
    have "fst ` set (AList.update (fi_name info) p estimates)
        = {fi_name info} \<union> fst ` set estimates"
      by (rule dom_update)
    with inv both show ?thesis
      by (auto simp: keys_detected_def)
  qed
qed

lemma process_boxes_keys_detected:
  "process_boxes ml img inc nms bs st = Inr st' \<Longrightarrow> keys_detected st \<Longrightarrow> keys_detected st'"
proof (induction bs arbitrary: st)
  case Nil
  then show ?case by simp
next
  case (Cons b bs)
  then show ?case
    by (auto split: sum.splits dest: process_box_keys_detected)
qed

lemma process_results_keys_detected:
  "process_results ml img inc rs st = Inr st' \<Longrightarrow> keys_detected st \<Longrightarrow> keys_detected st'"
proof (induction rs arbitrary: st)
  case Nil
  then show ?case by simp
next
  case (Cons r rs)
  then show ?case
    by (auto split: option.splits if_splits sum.splits dest: process_boxes_keys_detected)
qed

text \<open>
  Claim C9. In every result the analysis returns, each food key of the portion
  estimates is the name of at least one entry of the detected foods.
\<close>

theorem portion_keys_detected:
  assumes "analyze_image self opened inc = Inr r"
  shows "fst ` set (portion_estimates r) \<subseteq> fi_name ` set (detected_foods r)"
proof -
  from assms obtain img fm foods estimates where
    run: "process_results (loader self) img inc (fm img (confidence_threshold self)) ([], [])
            = Inr (foods, estimates)"
    and r: "detected_foods r = foods" "portion_estimates r = estimates"
    by (auto simp: analyze_image_def split: sum.splits option.splits prod.splits)
  have "keys_detected ([], [])"
    by (simp add: keys_detected_def)
  with run have "keys_detected (foods, estimates)"
    by (rule process_results_keys_detected)
  then show ?thesis
    by (simp add: keys_detected_def r)
qed


text \<open>The theorem at an analysis of two boxes, an apple and a banana.\<close>

theorem portion_keys_detected_witness:
  "analyze_image
        \<lparr>loader = \<lparr>food_recognition = Some (\<lambda>img thr.
             [\<lparr>boxes = Some [\<lparr>cls = 47, conf = 0.9, xyxy = (100, 100, 400, 400)\<rparr>,
                             \<lparr>cls = 46, conf = 0.8, xyxy = (0, 0, 600, 300)\<rparr>],
               names = [47 \<mapsto> ''apple'', 46 \<mapsto> ''banana'']\<rparr>]),
           depth_estimation = None\<rparr>,
         confidence_threshold = 0.5\<rparr>
        (Inr \<lparr>shape0 = 1000, shape1 = 1000, pixels = []\<rparr>) True
      = Inr \<lparr>detected_foods =
            [\<lparr>fi_name = ''apple'', fi_confidence = 0.9,
              fi_bounding_box = \<lparr>bb_x = 100, bb_y = 100, bb_width = 300, bb_height = 300\<rparr>\<rparr>,
             \<lparr>fi_name = ''banana'', fi_confidence = 0.8,
              fi_bounding_box = \<lparr>bb_x = 0, bb_y = 0, bb_width = 600, bb_height = 300\<rparr>\<rparr>],
          portion_estimates = [(''apple'', 109.2), (''banana'', 141.6)],
          image_dimensions = (1000, 1000)\<rparr>
   \<and> fst ` set (portion_estimates
        \<lparr>detected_foods =
            [\<lparr>fi_name = ''apple'', fi_confidence = 0.9,
              fi_bounding_box = \<lparr>bb_x = 100, bb_y = 100, bb_width = 300, bb_height = 300\<rparr>\<rparr>,
             \<lparr>fi_name = ''banana'', fi_confidence = 0.8,
              fi_bounding_box = \<lparr>bb_x = 0, bb_y = 0, bb_width = 600, bb_height = 300\<rparr>\<rparr>],
          portion_estimates = [(''apple'', 109.2), (''banana'', 141.6)],
          image_dimensions = (1000, 1000)\<rparr>)
      \<subseteq> fi_name ` set (detected_foods
        \<lparr>detected_foods =
            [\<lparr>fi_name = ''apple'', fi_confidence = 0.9,
              fi_bounding_box = \<lparr>bb_x = 100, bb_y = 100, bb_width = 300, bb_height = 300\<rparr>\<rparr>,
             \<lparr>fi_name = ''banana'', fi_confidence = 0.8,
              fi_bounding_box = \<lparr>bb_x = 0, bb_y = 0, bb_width = 600, bb_height = 300\<rparr>\<rparr>],
          portion_estimates = [(''apple'', 109.2), (''banana'', 141.6)],
          image_dimensions = (1000, 1000)\<rparr>)"
proof -
  have run: "analyze_image
        \<lparr>loader = \<lparr>food_recognition = Some (\<lambda>img thr.
             [\<lparr>boxes = Some [\<lparr>cls = 47, conf = 0.9, xyxy = (100, 100, 400, 400)\<rparr>,
                             \<lparr>cls = 46, conf = 0.8, xyxy = (0, 0, 600, 300)\<rparr>],
               names = [47 \<mapsto> ''apple'', 46 \<mapsto> ''banana'']\<rparr>]),
           depth_estimation = None\<rparr>,
         confidence_threshold = 0.5\<rparr>
        (Inr \<lparr>shape0 = 1000, shape1 = 1000, pixels = []\<rparr>) True
      = Inr \<lparr>detected_foods =
            [\<lparr>fi_name = ''apple'', fi_confidence = 0.9,
              fi_bounding_box = \<lparr>bb_x = 100, bb_y = 100, bb_width = 300, bb_height = 300\<rparr>\<rparr>,
             \<lparr>fi_name = ''banana'', fi_confidence = 0.8,
              fi_bounding_box = \<lparr>bb_x = 0, bb_y = 0, bb_width = 600, bb_height = 300\<rparr>\<rparr>],
          portion_estimates = [(''apple'', 109.2), (''banana'', 141.6)],
          image_dimensions = (1000, 1000)\<rparr>"
    by (simp add: analyze_image_def process_box_def map_to_food_class_def lower_def lower_char_def
        mappings_def estimate_portion_def depth_stage_def area_weight_def default_weight_for_def
        FOOD_CLASSES_def py_round_def round_half_even_def py_int_def scale_factor_def
        typical_ratio_def area_ratio_def food_area_def image_area_def Let_def)
  from portion_keys_detected [OF run] run show ?thesis
    by (rule conjI [rotated])
qed

subsection \<open>No qualifying detection\<close>

lemma process_boxes_all_dropped:
  assumes "\<forall>b \<in> set bs. \<exists>l. nms (cls b) = Some l
             \<and> (map_to_food_class l = None \<or> map_to_food_class l = Some [])"
  shows "process_boxes ml img inc nms bs st = Inr st"
  using assms
proof (induction bs)
  case Nil
  then show ?case by simp
next
  case (Cons b bs)
  then obtain l where "nms (cls b) = Some l"
    "map_to_food_class l = None \<or> map_to_food_class l = Some []"
    by auto
  then have "process_box ml img inc nms b st = Inr st"
    by (rule process_box_dropped)
  with Cons show ?case by simp
qed

lemma process_results_all_dropped:
  assumes "\<forall>r \<in> set rs. \<forall>bs. boxes r = Some bs \<longrightarrow>
             (\<forall>b \<in> set bs. \<exists>l. names r (cls b) = Some l
                \<and> (map_to_food_class l = None \<or> map_to_food_class l = Some []))"
  shows "process_results ml img inc rs st = Inr st"
  using assms
proof (induction rs)
  case Nil
  then show ?case by simp
next
  case (Cons r rs)
  show ?case
  proof (cases "boxes r")
    case None
    with Cons show ?thesis by simp
  next
    case (Some bs)
    with Cons.prems have "\<forall>b \<in> set bs. \<exists>l. names r (cls b) = Some l
        \<and> (map_to_food_class l = None \<or> map_to_food_class l = Some [])"
      by simp
    then have "process_boxes ml img inc (names r) bs st = Inr st"
      by (rule process_boxes_all_dropped)
    with Cons Some show ?thesis by simp
  qed
qed

text \<open>
  Claim C7. When the image decodes, the detector is loaded and no detection qualifies
  (every result has no boxes, or only boxes whose label the mapper drops or maps to the
  empty key), the analysis returns normally: the detected foods and the portion
  estimates are empty, and the dimensions are the image's width and height.
\<close>

theorem no_qualifying_detection:
  assumes "food_recognition (loader self) = Some fm"
    and "\<forall>r \<in> set (fm img (confidence_threshold self)). \<forall>bs. boxes r = Some bs \<longrightarrow>
           (\<forall>b \<in> set bs. \<exists>l. names r (cls b) = Some l
              \<and> (map_to_food_class l = None \<or> map_to_food_class l = Some []))"
  shows "analyze_image self (Inr img) inc =
     Inr \<lparr>detected_foods = [], portion_estimates = [],
          image_dimensions = (shape1 img, shape0 img)\<rparr>"
  using assms(1) process_results_all_dropped [OF assms(2)]
  by (simp add: analyze_image_def)

text \<open>The theorem at a detector output of three results: one without boxes, one with an
  empty list of boxes, one with a single plate.\<close>

theorem no_qualifying_detection_witness:
  "analyze_image
        \<lparr>loader = \<lparr>food_recognition = Some (\<lambda>img thr.
             [\<lparr>boxes = None, names = [60 \<mapsto> ''plate'']\<rparr>,
              \<lparr>boxes = Some [], names = [60 \<mapsto> ''plate'']\<rparr>,
              \<lparr>boxes = Some [\<lparr>cls = 60, conf = 0.7, xyxy = (100, 100, 400, 400)\<rparr>],
               names = [60 \<mapsto> ''plate'']\<rparr>]),
           depth_estimation = None\<rparr>,
         confidence_threshold = 0.5\<rparr>
        (Inr \<lparr>shape0 = 480, shape1 = 640, pixels = []\<rparr>) True
      = Inr \<lparr>detected_foods = [], portion_estimates = [], image_dimensions = (640, 480)\<rparr>"
proof -
  let ?fm = "\<lambda>(img :: image) (thr :: rat).
             [\<lparr>boxes = None, names = [60 \<mapsto> ''plate'']\<rparr>,
              \<lparr>boxes = Some [], names = [60 \<mapsto> ''plate'']\<rparr>,
              \<lparr>boxes = Some [\<lparr>cls = 60, conf = 0.7, xyxy = (100, 100, 400, 400)\<rparr>],
               names = [60 \<mapsto> ''plate'']\<rparr>]"
  let ?self = "\<lparr>loader = \<lparr>food_recognition = Some ?fm, depth_estimation = None\<rparr>,
         confidence_threshold = 0.5\<rparr>"
  let ?img = "\<lparr>shape0 = 480, shape1 = 640, pixels = []\<rparr>"
  have plate: "map_to_food_class ''plate'' = None"
    by (simp add: map_to_food_class_def lower_def lower_char_def FOOD_CLASSES_def mappings_def)
  have 1: "food_recognition (loader ?self) = Some ?fm" by simp
  have 2: "\<forall>r \<in> set (?fm ?img (confidence_threshold ?self)). \<forall>bs. boxes r = Some bs \<longrightarrow>
           (\<forall>b \<in> set bs. \<exists>l. names r (cls b) = Some l
              \<and> (map_to_food_class l = None \<or> map_to_food_class l = Some []))"
    by (simp add: plate)
  from no_qualifying_detection [OF 1 2, where inc = True] show ?thesis by simp
qed

subsection \<open>Degenerate boxes\<close>

lemma py_round_tenths: "py_round (of_int n / 10) 1 = of_int n / 10"
  by (simp add: py_round_def round_half_even_of_int)

lemma zero_area_weight:
  assumes "food_area bbox = 0"
  shows "py_round (area_weight img k bbox) 1 = default_weight_for k / 2"
proof -
  obtain n where n: "default_weight_for k = of_int n"
    using default_weight_for_pos_int by blast
  have "scale_factor img bbox = 1 / 2"
    using assms by (simp add: scale_factor_def area_ratio_def)
  then have "area_weight img k bbox = of_int (5 * n) / 10"
    by (simp add: area_weight_def n)
  then show ?thesis
    by (simp only: py_round_tenths) (simp add: n)
qed

text \<open>
  Two degenerate boxes, an apple of zero width and a banana outside the 1000 by 1000
  image, are not dropped: both are among the detected foods and both have a portion
  estimate.
\<close>

theorem degenerate_box_counterexample:
  "analyze_image
        \<lparr>loader = \<lparr>food_recognition = Some (\<lambda>img thr.
             [\<lparr>boxes = Some [\<lparr>cls = 47, conf = 0.9, xyxy = (100, 100, 100, 400)\<rparr>,
                             \<lparr>cls = 46, conf = 0.8, xyxy = (1200, 1200, 1800, 1500)\<rparr>],
               names = [47 \<mapsto> ''apple'', 46 \<mapsto> ''banana'']\<rparr>]),
           depth_estimation = None\<rparr>,
         confidence_threshold = 0.5\<rparr>
        (Inr \<lparr>shape0 = 1000, shape1 = 1000, pixels = []\<rparr>) True
      = Inr \<lparr>detected_foods =
            [\<lparr>fi_name = ''apple'', fi_confidence = 0.9,
              fi_bounding_box = \<lparr>bb_x = 100, bb_y = 100, bb_width = 0, bb_height = 300\<rparr>\<rparr>,
             \<lparr>fi_name = ''banana'', fi_confidence = 0.8,
              fi_bounding_box = \<lparr>bb_x = 1200, bb_y = 1200, bb_width = 600, bb_height = 300\<rparr>\<rparr>],
          portion_estimates = [(''apple'', 91), (''banana'', 141.6)],
          image_dimensions = (1000, 1000)\<rparr>"
  by (simp add: analyze_image_def process_box_def map_to_food_class_def lower_def lower_char_def
      mappings_def estimate_portion_def depth_stage_def area_weight_def default_weight_for_def
      FOOD_CLASSES_def py_round_def round_half_even_def py_int_def scale_factor_def
      typical_ratio_def area_ratio_def food_area_def image_area_def Let_def)

text \<open>
  Claim C5, as the code has it. The analysis makes no check of the geometry of a box.
  On an image with positive width and height, a box whose label maps to a non-empty
  food key is kept whatever its coordinates: it adds an entry to the detected foods,
  with the box truncated to whole pixels, and, when portions are estimated, an entry to
  the portion estimates; no error is raised. For a box of zero width or zero height and
  no depth model the estimate is half the default weight.
\<close>

theorem degenerate_box_kept:
  assumes "0 < shape1 img" and "0 < shape0 img"
    and "nms (cls b) = Some label" and "map_to_food_class label = Some k" and "k \<noteq> []"
    and "xyxy b = (x1, y1, x2, y2)"
  shows "(\<exists>p. estimate_portion ml img k (x1, y1, x2, y2) = Inr p
          \<and> process_box ml img True nms b (foods, estimates) =
              Inr (foods @ [\<lparr>fi_name = k, fi_confidence = py_round (conf b) 3,
                              fi_bounding_box =
                                \<lparr>bb_x = py_int x1, bb_y = py_int y1,
                                 bb_width = py_int (x2 - x1), bb_height = py_int (y2 - y1)\<rparr>\<rparr>],
                   AList.update k p estimates))
       \<and> process_box ml img False nms b (foods, estimates) =
              Inr (foods @ [\<lparr>fi_name = k, fi_confidence = py_round (conf b) 3,
                              fi_bounding_box =
                                \<lparr>bb_x = py_int x1, bb_y = py_int y1,
                                 bb_width = py_int (x2 - x1), bb_height = py_int (y2 - y1)\<rparr>\<rparr>],
                   estimates)
       \<and> ((x1 = x2 \<or> y1 = y2) \<and> depth_estimation ml = None \<longrightarrow>
            estimate_portion ml img k (x1, y1, x2, y2) = Inr (default_weight_for k / 2))"
proof -
  have est: "estimate_portion ml img k (x1, y1, x2, y2)
      = Inr (py_round (depth_stage ml img (x1, y1, x2, y2) (area_weight img k (x1, y1, x2, y2))) 1)"
    using assms(1,2) by (rule estimate_portion_nonempty)
  have on: "\<exists>p. estimate_portion ml img k (x1, y1, x2, y2) = Inr p
          \<and> process_box ml img True nms b (foods, estimates) =
              Inr (foods @ [\<lparr>fi_name = k, fi_confidence = py_round (conf b) 3,
                              fi_bounding_box =
                                \<lparr>bb_x = py_int x1, bb_y = py_int y1,
                                 bb_width = py_int (x2 - x1), bb_height = py_int (y2 - y1)\<rparr>\<rparr>],
                   AList.update k p estimates)"
    using assms(3,4,5,6) est by (simp add: process_box_def)
  have off: "process_box ml img False nms b (foods, estimates) =
              Inr (foods @ [\<lparr>fi_name = k, fi_confidence = py_round (conf b) 3,
                              fi_bounding_box =
                                \<lparr>bb_x = py_int x1, bb_y = py_int y1,
                                 bb_width = py_int (x2 - x1), bb_height = py_int (y2 - y1)\<rparr>\<rparr>],
                   estimates)"
    using assms(3,4,5,6) by (simp add: process_box_def)
  have zero: "(x1 = x2 \<or> y1 = y2) \<and> depth_estimation ml = None \<longrightarrow>
            estimate_portion ml img k (x1, y1, x2, y2) = Inr (default_weight_for k / 2)"
  proof (intro impI, elim conjE)
    assume z: "x1 = x2 \<or> y1 = y2" and d: "depth_estimation ml = None"
    from z have "food_area (x1, y1, x2, y2) = 0"
      by (auto simp: food_area_def)
    then have "py_round (area_weight img k (x1, y1, x2, y2)) 1 = default_weight_for k / 2"
      by (rule zero_area_weight)
    moreover have "depth_stage ml img (x1, y1, x2, y2) (area_weight img k (x1, y1, x2, y2))
        = area_weight img k (x1, y1, x2, y2)"
      using d by (simp add: depth_stage_def)
    ultimately show "estimate_portion ml img k (x1, y1, x2, y2) = Inr (default_weight_for k / 2)"
      using est by (simp only:)
  qed
  show ?thesis
    by (rule conjI [OF on conjI [OF off zero]])
qed


text \<open>The theorem at an apple of zero width.\<close>

theorem degenerate_box_kept_witness:
  "estimate_portion \<lparr>food_recognition = None, depth_estimation = None\<rparr>
      \<lparr>shape0 = 1000, shape1 = 1000, pixels = []\<rparr> ''apple'' (100, 100, 100, 400) = Inr 91
   \<and> process_box \<lparr>food_recognition = None, depth_estimation = None\<rparr>
      \<lparr>shape0 = 1000, shape1 = 1000, pixels = []\<rparr> True [47 \<mapsto> ''apple'']
      \<lparr>cls = 47, conf = 0.9, xyxy = (100, 100, 100, 400)\<rparr> ([], [])
     = Inr ([\<lparr>fi_name = ''apple'', fi_confidence = 0.9,
               fi_bounding_box = \<lparr>bb_x = 100, bb_y = 100, bb_width = 0, bb_height = 300\<rparr>\<rparr>],
            [(''apple'', 91)])"
proof -
  let ?ml = "\<lparr>food_recognition = None, depth_estimation = None\<rparr>"
  let ?img = "\<lparr>shape0 = 1000, shape1 = 1000, pixels = []\<rparr>"
  let ?b = "\<lparr>cls = 47, conf = 0.9, xyxy = (100, 100, 100, 400)\<rparr>"
  have h: "0 < shape1 ?img" "0 < shape0 ?img" "[47 \<mapsto> ''apple''] (cls ?b) = Some ''apple''"
    "map_to_food_class ''apple'' = Some ''apple''" "''apple'' \<noteq> []"
    "xyxy ?b = (100, 100, 100, 400)"
    by (simp_all add: map_to_food_class_def lower_def lower_char_def FOOD_CLASSES_def)
  note t = degenerate_box_kept [where ml = ?ml and foods = "[]" and estimates = "[]"
      and img = ?img and nms = "[47 \<mapsto> ''apple'']" and b = ?b and label = "''apple''"
      and k = "''apple''" and ?x1.0 = 100 and ?y1.0 = 100 and ?x2.0 = 100 and ?y2.0 = 400,
      OF h(1) h(2) h(3) h(4) h(5) h(6)]
  have dw: "default_weight_for ''apple'' / 2 = 91"
    by (simp add: default_weight_for_def FOOD_CLASSES_def)
  have e: "estimate_portion ?ml ?img ''apple'' (100, 100, 100, 400) = Inr 91"
    using t [THEN conjunct2, THEN conjunct2] by (simp add: dw)
  have "process_box ?ml ?img True [47 \<mapsto> ''apple''] ?b ([], [])
     = Inr ([\<lparr>fi_name = ''apple'', fi_confidence = 0.9,
               fi_bounding_box = \<lparr>bb_x = 100, bb_y = 100, bb_width = 0, bb_height = 300\<rparr>\<rparr>],
            [(''apple'', 91)])"
    using t [THEN conjunct1] e
    by (auto simp: py_round_def round_half_even_def py_int_def Let_def)
  with e show ?thesis by (rule conjI)
qed

subsection \<open>Several detections of one food\<close>

lemma process_boxes_detections:
  "process_boxes ml img inc nms bs st = process_detections ml img inc (map (Pair nms) bs) st"
  by (induction bs arbitrary: st) (auto split: sum.splits)

lemma process_detections_append:
  "process_detections ml img inc (xs @ ys) st =
     (case process_detections ml img inc xs st of
        Inl e \<Rightarrow> Inl e
      | Inr st' \<Rightarrow> process_detections ml img inc ys st')"
  by (induction xs arbitrary: st) (auto split: sum.splits)

lemma process_results_detections:
  "process_results ml img inc rs st = process_detections ml img inc (detections rs) st"
proof (induction rs arbitrary: st)
  case Nil
  then show ?case by (simp add: detections_def)
next
  case (Cons r rs)
  have d: "detections (r # rs) =
      (case boxes r of None \<Rightarrow> [] | Some bs \<Rightarrow> map (Pair (names r)) bs) @ detections rs"
    by (simp add: detections_def)
  show ?case
  proof (cases "boxes r")
    case None
    with Cons d show ?thesis by simp
  next
    case (Some bs)
    then show ?thesis
      using Cons d
      by (cases bs)
        (auto simp: process_detections_append process_boxes_detections split: sum.splits)
  qed
qed

lemma process_box_not_kept:
  assumes "process_box ml img inc nms b st = Inr st'" and "kept_key (nms, b) = None"
  shows "st' = st"
proof -
  obtain x1 y1 x2 y2 where xy: "xyxy b = (x1, y1, x2, y2)"
    by (cases "xyxy b") auto
  show ?thesis
    using assms
    by (cases st)
      (auto simp: process_box_def kept_key_def xy split: option.splits if_splits)
qed

lemma process_box_kept_key:
  assumes "process_box ml img True nms b st = Inr st'" and "kept_key (nms, b) = Some k"
  shows "\<exists>p. estimate_portion ml img k (xyxy b) = Inr p
           \<and> snd st' = AList.update k p (snd st)"
proof -
  obtain x1 y1 x2 y2 where xy: "xyxy b = (x1, y1, x2, y2)"
    by (cases "xyxy b") auto
  show ?thesis
    using assms
    by (cases st)
      (auto simp: process_box_def kept_key_def xy Let_def
        split: option.splits if_splits sum.splits)
qed

lemma process_box_other_key:
  assumes "process_box ml img True nms b st = Inr st'" and "kept_key (nms, b) \<noteq> Some k"
  shows "map_of (snd st') k = map_of (snd st) k"
proof (cases "kept_key (nms, b)")
  case None
  with assms(1) have "st' = st" by (rule process_box_not_kept)
  then show ?thesis by simp
next
  case (Some k')
  with assms(2) have ne: "k' \<noteq> k" by simp
  from process_box_kept_key [OF assms(1) Some]
  obtain p where "snd st' = AList.update k' p (snd st)" by blast
  with ne show ?thesis by (simp add: update_conv')
qed

lemma process_box_distinct:
  assumes "process_box ml img True nms b st = Inr st'" and "distinct (map fst (snd st))"
  shows "distinct (map fst (snd st'))"
proof (cases "kept_key (nms, b)")
  case None
  with assms(1) have "st' = st" by (rule process_box_not_kept)
  with assms(2) show ?thesis by simp
next
  case (Some k')
  from process_box_kept_key [OF assms(1) Some]
  obtain p where "snd st' = AList.update k' p (snd st)" by blast
  with assms(2) show ?thesis by (simp add: distinct_update)
qed

lemma process_detections_other_key:
  "process_detections ml img True ds st = Inr st' \<Longrightarrow>
   (\<forall>d \<in> set ds. kept_key d \<noteq> Some k) \<Longrightarrow>
   map_of (snd st') k = map_of (snd st) k"
proof (induction ds arbitrary: st)
  case Nil
  then show ?case by simp
next
  case (Cons d ds)
  from Cons.prems(1) obtain st1 where
    s1: "process_box ml img True (fst d) (snd d) st = Inr st1" and
    s2: "process_detections ml img True ds st1 = Inr st'"
    by (auto split: sum.splits)
  from Cons.prems(2) have k1: "kept_key (fst d, snd d) \<noteq> Some k" by simp
  from Cons.prems(2) have k2: "\<forall>d \<in> set ds. kept_key d \<noteq> Some k" by simp
  from Cons.IH [OF s2 k2] process_box_other_key [OF s1 k1]
  show ?case by simp
qed

lemma process_detections_distinct:
  "process_detections ml img True ds st = Inr st' \<Longrightarrow>
   distinct (map fst (snd st)) \<Longrightarrow>
   distinct (map fst (snd st'))"
proof (induction ds arbitrary: st)
  case Nil
  then show ?case by simp
next
  case (Cons d ds)
  from Cons.prems(1) obtain st1 where
    s1: "process_box ml img True (fst d) (snd d) st = Inr st1" and
    s2: "process_detections ml img True ds st1 = Inr st'"
    by (auto split: sum.splits)
  from process_box_distinct [OF s1 Cons.prems(2)]
  have "distinct (map fst (snd st1))" .
  from Cons.IH [OF s2 this] show ?case .
qed

lemma single_entry:
  "distinct (map fst xs) \<Longrightarrow> map_of xs k = Some p \<Longrightarrow>
   filter (\<lambda>e. fst e = k) xs = [(k, p)]"
proof (induction xs)
  case Nil
  then show ?case by simp
next
  case (Cons x xs)
  show ?case
  proof (cases "fst x = k")
    case True
    with Cons.prems have xe: "x = (k, p)" by (cases x) simp
    from Cons.prems(1) True have "k \<notin> fst ` set xs" by simp
    then have "filter (\<lambda>e. fst e = k) xs = []"
      by (auto simp: filter_empty_conv)
    with xe show ?thesis by simp
  next
    case False
    with Cons show ?thesis by (cases x) auto
  qed
qed

text \<open>
  Claim C8. When the analysis returns and several kept detections have the same food key,
  the portion estimates hold exactly one entry for that key, and its value is the
  estimate computed for the last of these detections: the entry is overwritten, the
  estimates are not added up or combined. Stated for the last detection \<open>(nms, b)\<close> with
  key \<open>k\<close>, whatever was detected before it.
\<close>

theorem duplicate_key_last_wins:
  assumes run: "analyze_image self (Inr img) True = Inr r"
    and fm: "food_recognition (loader self) = Some fm"
    and dets: "detections (fm img (confidence_threshold self)) = pre @ [(nms, b)] @ post"
    and key: "kept_key (nms, b) = Some k"
    and last: "\<forall>d \<in> set post. kept_key d \<noteq> Some k"
  shows "\<exists>p. estimate_portion (loader self) img k (xyxy b) = Inr p
           \<and> map_of (portion_estimates r) k = Some p
           \<and> filter (\<lambda>e. fst e = k) (portion_estimates r) = [(k, p)]"
proof -
  from run fm obtain st where
    pr0: "process_detections (loader self) img True
           (detections (fm img (confidence_threshold self))) ([], []) = Inr st" and
    r: "portion_estimates r = snd st"
    by (auto simp: analyze_image_def process_results_detections
        split: sum.splits prod.splits)
  from pr0 have
    pr: "process_detections (loader self) img True
           (pre @ [(nms, b)] @ post) ([], []) = Inr st"
    by (simp only: dets)
  from pr obtain st0 st1 where
    p0: "process_detections (loader self) img True pre ([], []) = Inr st0" and
    p1: "process_box (loader self) img True nms b st0 = Inr st1" and
    p2: "process_detections (loader self) img True post st1 = Inr st"
    by (auto simp: process_detections_append split: sum.splits)
  from process_box_kept_key [OF p1 key] obtain p where
    ep: "estimate_portion (loader self) img k (xyxy b) = Inr p" and
    u: "snd st1 = AList.update k p (snd st0)"
    by blast
  from u have m1: "map_of (snd st1) k = Some p" by (simp add: update_conv')
  from process_detections_other_key [OF p2 last] m1
  have m: "map_of (snd st) k = Some p" by simp
  have "distinct (map fst (snd (([], []) :: collected)))" by simp
  from process_detections_distinct [OF p0 this]
  have "distinct (map fst (snd st0))" .
  from process_box_distinct [OF p1 this]
  have "distinct (map fst (snd st1))" .
  from process_detections_distinct [OF p2 this]
  have d: "distinct (map fst (snd st))" .
  from single_entry [OF d m] ep m r show ?thesis by auto
qed

text \<open>The theorem at an analysis of three boxes: two apples, of which the second is the
  larger, then a banana. The first apple alone is estimated at 109.2, the second at
  218.4; the sum would be 327.6 and the mean 163.8.\<close>

theorem duplicate_key_last_wins_witness:
  "analyze_image
        \<lparr>loader = \<lparr>food_recognition = Some (\<lambda>img thr.
             [\<lparr>boxes = Some [\<lparr>cls = 47, conf = 0.9, xyxy = (100, 100, 400, 400)\<rparr>,
                             \<lparr>cls = 47, conf = 0.8, xyxy = (0, 0, 600, 300)\<rparr>,
                             \<lparr>cls = 46, conf = 0.7, xyxy = (10, 10, 190, 310)\<rparr>],
               names = [47 \<mapsto> ''apple'', 46 \<mapsto> ''banana'']\<rparr>]),
           depth_estimation = None\<rparr>,
         confidence_threshold = 0.5\<rparr>
        (Inr \<lparr>shape0 = 1000, shape1 = 1000, pixels = []\<rparr>) True
      = Inr \<lparr>detected_foods =
            [\<lparr>fi_name = ''apple'', fi_confidence = 0.9,
              fi_bounding_box = \<lparr>bb_x = 100, bb_y = 100, bb_width = 300, bb_height = 300\<rparr>\<rparr>,
             \<lparr>fi_name = ''apple'', fi_confidence = 0.8,
              fi_bounding_box = \<lparr>bb_x = 0, bb_y = 0, bb_width = 600, bb_height = 300\<rparr>\<rparr>,
             \<lparr>fi_name = ''banana'', fi_confidence = 0.7,
              fi_bounding_box = \<lparr>bb_x = 10, bb_y = 10, bb_width = 180, bb_height = 300\<rparr>\<rparr>],
          portion_estimates = [(''apple'', 218.4), (''banana'', 59)],
          image_dimensions = (1000, 1000)\<rparr>
   \<and> kept_key ([47 \<mapsto> ''apple'', 46 \<mapsto> ''banana''],
         \<lparr>cls = 47, conf = 0.9, xyxy = (100, 100, 400, 400)\<rparr>) = Some ''apple''
   \<and> kept_key ([47 \<mapsto> ''apple'', 46 \<mapsto> ''banana''],
         \<lparr>cls = 47, conf = 0.8, xyxy = (0, 0, 600, 300)\<rparr>) = Some ''apple''
   \<and> kept_key ([47 \<mapsto> ''apple'', 46 \<mapsto> ''banana''],
         \<lparr>cls = 46, conf = 0.7, xyxy = (10, 10, 190, 310)\<rparr>) = Some ''banana''
   \<and> estimate_portion
        \<lparr>food_recognition = Some (\<lambda>img thr.
             [\<lparr>boxes = Some [\<lparr>cls = 47, conf = 0.9, xyxy = (100, 100, 400, 400)\<rparr>,
                             \<lparr>cls = 47, conf = 0.8, xyxy = (0, 0, 600, 300)\<rparr>,
                             \<lparr>cls = 46, conf = 0.7, xyxy = (10, 10, 190, 310)\<rparr>],
               names = [47 \<mapsto> ''apple'', 46 \<mapsto> ''banana'']\<rparr>]),
           depth_estimation = None\<rparr>
        \<lparr>shape0 = 1000, shape1 = 1000, pixels = []\<rparr> ''apple'' (100, 100, 400, 400) = Inr 109.2
   \<and> estimate_portion
        \<lparr>food_recognition = Some (\<lambda>img thr.
             [\<lparr>boxes = Some [\<lparr>cls = 47, conf = 0.9, xyxy = (100, 100, 400, 400)\<rparr>,
                             \<lparr>cls = 47, conf = 0.8, xyxy = (0, 0, 600, 300)\<rparr>,
                             \<lparr>cls = 46, conf = 0.7, xyxy = (10, 10, 190, 310)\<rparr>],
               names = [47 \<mapsto> ''apple'', 46 \<mapsto> ''banana'']\<rparr>]),
           depth_estimation = None\<rparr>
        \<lparr>shape0 = 1000, shape1 = 1000, pixels = []\<rparr> ''apple'' (0, 0, 600, 300) = Inr 218.4
   \<and> map_of [(''apple'', 218.4), (''banana'', 59 :: rat)] ''apple'' = Some 218.4
   \<and> filter (\<lambda>e. fst e = ''apple'') [(''apple'', 218.4), (''banana'', 59 :: rat)]
        = [(''apple'', 218.4)]"
  (is "analyze_image ?self (Inr ?img) True = Inr ?r \<and> kept_key (?nms, ?b1) = _
       \<and> kept_key (?nms, ?b2) = _ \<and> kept_key (?nms, ?b3) = _ \<and> ?e1 \<and> ?e2 \<and> ?m \<and> ?f")
proof -
  let ?fm = "\<lambda>(img :: image) (thr :: rat).
             [\<lparr>boxes = Some [?b1, ?b2, ?b3], names = ?nms\<rparr>]"
  have run: "analyze_image ?self (Inr ?img) True = Inr ?r"
    by (simp add: analyze_image_def process_box_def map_to_food_class_def lower_def lower_char_def
        mappings_def estimate_portion_def depth_stage_def area_weight_def default_weight_for_def
        FOOD_CLASSES_def py_round_def round_half_even_def py_int_def scale_factor_def
        typical_ratio_def area_ratio_def food_area_def image_area_def Let_def)
  have fm: "food_recognition (loader ?self) = Some ?fm"
    by simp
  have dets: "detections (?fm ?img (confidence_threshold ?self))
      = [(?nms, ?b1)] @ [(?nms, ?b2)] @ [(?nms, ?b3)]"
    by (simp add: detections_def)
  have k1: "kept_key (?nms, ?b1) = Some ''apple''"
    and k2: "kept_key (?nms, ?b2) = Some ''apple''"
    and k3: "kept_key (?nms, ?b3) = Some ''banana''"
    by (simp_all add: kept_key_def map_to_food_class_def lower_def lower_char_def
        mappings_def FOOD_CLASSES_def)
  have last: "\<forall>d \<in> set [(?nms, ?b3)]. kept_key d \<noteq> Some ''apple''"
    using k3 by simp
  have e1: ?e1 and e2: ?e2
    by (simp_all add: estimate_portion_def depth_stage_def area_weight_def default_weight_for_def
        FOOD_CLASSES_def py_round_def round_half_even_def scale_factor_def
        typical_ratio_def area_ratio_def food_area_def image_area_def Let_def)
  from duplicate_key_last_wins [where self = ?self and img = ?img and r = ?r and fm = ?fm
      and pre = "[(?nms, ?b1)]" and nms = ?nms and b = ?b2 and post = "[(?nms, ?b3)]"
      and k = "''apple''", OF run fm dets k2 last]
  obtain p where
    p: "estimate_portion (loader ?self) ?img ''apple'' (xyxy ?b2) = Inr p"
    and m: "map_of (portion_estimates ?r) ''apple'' = Some p"
    and f: "filter (\<lambda>e. fst e = ''apple'') (portion_estimates ?r) = [(''apple'', p)]"
    by blast
  from p e2 have pv: "p = 218.4" by simp
  from m pv have m': ?m by simp
  from f pv have f': ?f by simp
  show ?thesis
    by (rule conjI [OF run conjI [OF k1 conjI [OF k2 conjI [OF k3
          conjI [OF e1 conjI [OF e2 conjI [OF m' f']]]]]]])
qed

end
